theory Spec2Isabelle
  imports Main
begin

section \<open>The OTP model of the Express back end\<close>

text \<open>
  The one-time-password subsystem is a Mongoose model with four static operations:
  \<open>generateOTP\<close>, \<open>createOTP\<close>, \<open>verifyOTP\<close> and \<open>resendOTP\<close>
  (plus the sweep \<open>cleanupExpiredOTPs\<close>). The collection is modelled as the list of
  its documents in insertion order, every operation takes the collection and returns the
  collection it leaves behind together with either the value it resolves to or the error it
  throws. Instants are milliseconds since the epoch. \<open>createOTP\<close> reads the clock
  twice: \<open>Date.now()\<close> in the expression for \<open>expiresAt\<close>, and again when the
  document is built and \<open>createdAt\<close> takes its default; \<open>resendOTP\<close> reads it once
  more, before that, for the cool-down filter. Each reading is a parameter of its own.
  \<open>verifyOTP\<close> reads the clock for its filter, and that reading also stands for the
  \<open>updatedAt\<close> its saves stamp.

  Strings are lists of code units below 256 (Latin-1); \<open>toLowerCase\<close>, \<open>trim\<close> and
  the class \<open>\s\<close> of the e-mail pattern are modelled on that range.
\<close>

subsection \<open>Strings: \<open>toLowerCase\<close>, \<open>trim\<close> and the e-mail pattern\<close>

definition is_space :: "char \<Rightarrow> bool" where
  "is_space c = ((of_char c :: nat) \<in> {9, 10, 11, 12, 13, 32, 160})"

definition toLowerCase_char :: "char \<Rightarrow> char" where
  "toLowerCase_char c =
     (let n = (of_char c :: nat) in
      if (65 \<le> n \<and> n \<le> 90) \<or> (192 \<le> n \<and> n \<le> 222 \<and> n \<noteq> 215)
      then char_of (n + 32) else c)"

definition toLowerCase :: "string \<Rightarrow> string" where
  "toLowerCase s = map toLowerCase_char s"

definition trim :: "string \<Rightarrow> string" where
  "trim s = rev (dropWhile is_space (rev (dropWhile is_space s)))"

text \<open>
  The schema declares \<open>email: { lowercase: true, trim: true }\<close>. Mongoose runs these
  setters when a document is constructed and when a query filter on the path is cast, so
  both the stored address and the address of every filter are \<open>cast_email\<close> of what the
  caller passed.
\<close>

definition cast_email :: "string \<Rightarrow> string" where
  "cast_email s = trim (toLowerCase s)"

text \<open>
  The validator of \<open>email\<close> tests \<^verbatim>\<open>/^[^\s@]+@[^\s@]+\.[^\s@]+$/\<close>: no white space,
  exactly one \<open>@\<close> with a non-empty part before it, and after it a dot that is neither the
  first nor the last character.
\<close>

definition emailRegex_test :: "string \<Rightarrow> bool" where
  "emailRegex_test s =
     (let name = takeWhile (\<lambda>c. c \<noteq> CHR ''@'') s;
          rest = dropWhile (\<lambda>c. c \<noteq> CHR ''@'') s
      in name \<noteq> [] \<and> \<not> list_ex is_space s \<and>
         (case rest of
            [] \<Rightarrow> False
          | _ # host \<Rightarrow> CHR ''@'' \<notin> set host \<and> CHR ''.'' \<in> set (butlast (tl host))))"

subsection \<open>Documents, results and errors\<close>

record otp_doc =
  email :: string
  code :: string
  purpose :: string
  expiresAt :: int
  attempts :: nat
  isUsed :: bool
  createdAt :: int
  updatedAt :: int

text \<open>What \<open>createOTP\<close> and \<open>resendOTP\<close> resolve to: \<open>{otp, expiresAt, purpose}\<close>.\<close>

datatype issued = Issued (otp: string) (issued_expiresAt: int) (issued_purpose: string)

text \<open>What \<open>verifyOTP\<close> resolves to: \<open>{valid, message}\<close>.\<close>

record verification =
  valid :: bool
  message :: string

text \<open>
  Thrown values. \<open>ValidationError ps\<close> is Mongoose's validation error for the paths
  \<open>ps\<close>; \<open>Error m\<close> is \<open>new Error(m)\<close>; \<open>Rethrown p e\<close> is what a
  \<open>catch (error)\<close> block throws as \<open>new Error(p + error.message)\<close>.
\<close>

datatype js_error =
    ValidationError "string list"
  | Error string
  | Rethrown string js_error

text \<open>
  The libraries and the configuration the model calls: \<open>bcrypt.hash(s, 12)\<close> as a
  function of the salt it draws and of \<open>s\<close>, \<open>bcrypt.compare\<close>, and the value of
  \<open>parseInt(process.env.OTP_EXPIRE_MINUTES)\<close> (\<open>None\<close> for \<open>NaN\<close>).
\<close>

record env =
  bcrypt_hash :: "string \<Rightarrow> string \<Rightarrow> string"
  bcrypt_compare :: "string \<Rightarrow> string \<Rightarrow> bool"
  OTP_EXPIRE_MINUTES :: "int option"

subsection \<open>The store: \<open>findOne\<close>, \<open>deleteMany\<close>, \<open>save\<close>\<close>

text \<open>\<open>findOne\<close> gives the position of the first document that matches the filter.\<close>

fun findOne :: "('a \<Rightarrow> bool) \<Rightarrow> 'a list \<Rightarrow> nat option" where
  "findOne P [] = None"
| "findOne P (d # ds) = (if P d then Some 0 else map_option Suc (findOne P ds))"

definition deleteMany :: "('a \<Rightarrow> bool) \<Rightarrow> 'a list \<Rightarrow> 'a list" where
  "deleteMany P db = filter (\<lambda>d. \<not> P d) db"

text \<open>The filter \<open>{ email, purpose }\<close> after casting.\<close>

definition by_key :: "string \<Rightarrow> string \<Rightarrow> otp_doc \<Rightarrow> bool" where
  "by_key a p d = (email d = a \<and> purpose d = p)"

definition purposes :: "string list" where
  "purposes = [''signup'', ''login'', ''password_reset'', ''email_verification'']"

text \<open>The default of the parameter \<open>purpose = 'signup'\<close>.\<close>

definition default_purpose :: "string option \<Rightarrow> string" where
  "default_purpose p = (case p of None \<Rightarrow> ''signup'' | Some s \<Rightarrow> s)"

text \<open>
  A JavaScript \<open>Date\<close> holds an instant of at most 8.64e15 milliseconds either side of
  the epoch; \<open>new Date(t)\<close> for any other \<open>t\<close> is an Invalid Date. The field
  \<open>expiresAt\<close> of a document is the number the code passes to \<open>new Date\<close>, and the
  document has a usable \<open>expiresAt\<close> exactly when that number is a \<open>valid_date\<close>.
  Every clock reading is one.
\<close>

definition valid_date :: "int \<Rightarrow> bool" where
  "valid_date t = (- 8640000000000000 \<le> t \<and> t \<le> 8640000000000000)"

text \<open>
  The schema's validators, path by path: \<open>email\<close> is required and must match the
  pattern, \<open>code\<close> is required with \<open>minlength\<close> 6 and \<open>maxlength\<close> 6, \<open>purpose\<close>
  is required and in the enumeration, \<open>expiresAt\<close> is a required \<open>Date\<close> (an Invalid
  Date fails the cast and leaves the path without a value), \<open>attempts\<close> has \<open>max\<close> 5.
  \<open>invalid_paths\<close> lists the paths that fail, in the order of the schema.
\<close>

definition invalid_paths :: "otp_doc \<Rightarrow> string list" where
  "invalid_paths d =
     (if emailRegex_test (email d) then [] else [''email'']) @
     (if length (code d) = 6 then [] else [''code'']) @
     (if purpose d \<in> set purposes then [] else [''purpose'']) @
     (if valid_date (expiresAt d) then [] else [''expiresAt'']) @
     (if attempts d \<le> 5 then [] else [''attempts''])"

text \<open>
  The hook \<open>otpSchema.pre('save')\<close>: it returns at once when \<open>code\<close> is not modified,
  and replaces \<open>code\<close> by its bcrypt digest otherwise.
\<close>

definition pre_save :: "env \<Rightarrow> string \<Rightarrow> bool \<Rightarrow> otp_doc \<Rightarrow> otp_doc" where
  "pre_save E salt isModified_code d =
     (if \<not> isModified_code then d else d\<lparr>code := bcrypt_hash E salt (code d)\<rparr>)"

text \<open>
  \<open>doc.save()\<close>. Validation is the first \<open>pre('save')\<close> hook of every Mongoose schema,
  it runs before the hook above, and without \<open>validateModifiedOnly\<close> (which neither the
  schema nor any call sets) it checks every path of the document, the unmodified ones that
  were loaded from the collection included. A document that fails is not written and
  \<open>save\<close> rejects with the validation error. \<open>save_new\<close> is \<open>save\<close> on a document
  built with \<open>new this({...})\<close> (every path counts as modified, the document is
  inserted); \<open>save_loaded\<close> is \<open>save\<close> on the document that \<open>findOne\<close> returned from
  position \<open>i\<close>, where the operations only ever modify \<open>attempts\<close> and \<open>isUsed\<close>.
  The option \<open>timestamps: true\<close> keeps the \<open>createdAt\<close> a new document already has
  and gives it the same \<open>updatedAt\<close>; on a loaded document it stamps \<open>updatedAt\<close>.
\<close>

definition save_new ::
  "env \<Rightarrow> string \<Rightarrow> otp_doc \<Rightarrow> otp_doc list \<Rightarrow> js_error + otp_doc list" where
  "save_new E salt d db =
     (if invalid_paths d \<noteq> [] then Inl (ValidationError (invalid_paths d))
      else Inr (db @ [pre_save E salt True (d\<lparr>updatedAt := createdAt d\<rparr>)]))"

definition save_loaded ::
  "env \<Rightarrow> int \<Rightarrow> nat \<Rightarrow> otp_doc \<Rightarrow> otp_doc list \<Rightarrow> js_error + otp_doc list" where
  "save_loaded E now i d db =
     (if invalid_paths d \<noteq> [] then Inl (ValidationError (invalid_paths d))
      else Inr (db[i := pre_save E [] False (d\<lparr>updatedAt := now\<rparr>)]))"

subsection \<open>\<open>generateOTP\<close>\<close>

text \<open>
  \<open>speakeasy.totp({secret, digits: 6, ...})\<close> with a fresh random secret: the library
  truncates an HMAC to a 31-bit number \<open>n\<close>, writes it in decimal behind six zeros and
  returns the last six characters. The number is the operation's randomness.
\<close>

definition digit_char :: "nat \<Rightarrow> char" where
  "digit_char d = ''0123456789'' ! d"

fun decimal :: "nat \<Rightarrow> string" where
  "decimal n = (if n < 10 then [digit_char n] else decimal (n div 10) @ [digit_char (n mod 10)])"

declare decimal.simps [simp del]

definition generateOTP :: "nat \<Rightarrow> string" where
  "generateOTP n =
     (let padded = ''000000'' @ decimal n
      in drop (length padded - 6) padded)"

subsection \<open>\<open>createOTP\<close>, \<open>verifyOTP\<close>, \<open>resendOTP\<close>, \<open>cleanupExpiredOTPs\<close>\<close>

text \<open>
  \<open>(parseInt(process.env.OTP_EXPIRE_MINUTES) || 10)\<close>: \<open>NaN\<close> and 0 are falsy.
  \<open>parseInt\<close> gives a whole number, and for a whole number of minutes and a clock
  reading the sum \<open>Date.now() + minutes * 60 * 1000\<close> that the code forms in floating point
  is the exact sum whenever that is a \<open>valid_date\<close>, and is outside the range of
  \<open>Date\<close> otherwise; the model computes it on the integers.
\<close>

definition expire_minutes :: "env \<Rightarrow> int" where
  "expire_minutes E =
     (case OTP_EXPIRE_MINUTES E of None \<Rightarrow> 10 | Some m \<Rightarrow> if m = 0 then 10 else m)"

text \<open>
  \<open>new this({email, code, purpose, expiresAt})\<close>: \<open>now\<close> is the reading inside the
  expression for \<open>expiresAt\<close>, \<open>stamp\<close> the later one that the default of
  \<open>createdAt\<close> takes when the document is built.
\<close>

definition new_otp :: "env \<Rightarrow> int \<Rightarrow> int \<Rightarrow> string \<Rightarrow> string \<Rightarrow> string \<Rightarrow> otp_doc" where
  "new_otp E now stamp addr otpCode p =
     \<lparr>email = cast_email addr, code = otpCode, purpose = p,
      expiresAt = now + expire_minutes E * 60 * 1000,
      attempts = 0, isUsed = False, createdAt = stamp, updatedAt = stamp\<rparr>"

definition createOTP ::
  "env \<Rightarrow> string \<Rightarrow> nat \<Rightarrow> int \<Rightarrow> int \<Rightarrow> otp_doc list \<Rightarrow> string \<Rightarrow> string option \<Rightarrow>
   (js_error + issued) \<times> otp_doc list" where
  "createOTP E salt n now stamp db addr purposeArg =
     (let p = default_purpose purposeArg;
          db1 = deleteMany (by_key (cast_email addr) p) db;
          otpCode = generateOTP n;
          doc = new_otp E now stamp addr otpCode p
      in case save_new E salt doc db1 of
           Inl e \<Rightarrow> (Inl (Rethrown ''Failed to create OTP: '' e), db1)
         | Inr db2 \<Rightarrow> (Inr (Issued otpCode (expiresAt doc) (purpose doc)), db2))"

text \<open>The filter of \<open>verifyOTP\<close>: the key, \<open>isUsed: false\<close>, \<open>expiresAt: { $gt: now }\<close>.\<close>

definition active_for :: "string \<Rightarrow> string \<Rightarrow> int \<Rightarrow> otp_doc \<Rightarrow> bool" where
  "active_for a p now d = (by_key a p d \<and> isUsed d = False \<and> now < expiresAt d)"

definition verifyOTP ::
  "env \<Rightarrow> int \<Rightarrow> otp_doc list \<Rightarrow> string \<Rightarrow> string \<Rightarrow> string option \<Rightarrow>
   (js_error + verification) \<times> otp_doc list" where
  "verifyOTP E now db addr submitted purposeArg =
     (let p = default_purpose purposeArg in
      case findOne (active_for (cast_email addr) p now) db of
        None \<Rightarrow> (Inr \<lparr>valid = False, message = ''Invalid or expired OTP''\<rparr>, db)
      | Some i \<Rightarrow>
          (let doc = db ! i in
           if 5 \<le> attempts doc
           then (Inr \<lparr>valid = False,
                      message = ''Too many attempts. Please request a new OTP.''\<rparr>, db)
           else
             (let doc1 = doc\<lparr>attempts := attempts doc + 1\<rparr> in
              case save_loaded E now i doc1 db of
                Inl e \<Rightarrow> (Inl (Rethrown ''OTP verification failed: '' e), db)
              | Inr db1 \<Rightarrow>
                  if bcrypt_compare E submitted (code doc1)
                  then (case save_loaded E now i (doc1\<lparr>isUsed := True\<rparr>) db1 of
                          Inl e \<Rightarrow> (Inl (Rethrown ''OTP verification failed: '' e), db1)
                        | Inr db2 \<Rightarrow>
                            (Inr \<lparr>valid = True, message = ''OTP verified successfully''\<rparr>,
                             db2))
                  else (Inr \<lparr>valid = False, message = ''Invalid OTP code''\<rparr>, db1))))"

text \<open>
  The filter of \<open>resendOTP\<close>: the key and \<open>createdAt: { $gte: now - 60 * 1000 }\<close>.
  \<open>resendOTP\<close> reads \<open>now\<close> for the filter; the \<open>createOTP\<close> it then calls reads
  \<open>issue\<close> and \<open>stamp\<close>.
\<close>

definition recent_for :: "string \<Rightarrow> string \<Rightarrow> int \<Rightarrow> otp_doc \<Rightarrow> bool" where
  "recent_for a p now d = (by_key a p d \<and> now - 60 * 1000 \<le> createdAt d)"

definition resendOTP ::
  "env \<Rightarrow> string \<Rightarrow> nat \<Rightarrow> int \<Rightarrow> int \<Rightarrow> int \<Rightarrow> otp_doc list \<Rightarrow> string \<Rightarrow> string option \<Rightarrow>
   (js_error + issued) \<times> otp_doc list" where
  "resendOTP E salt n now issue stamp db addr purposeArg =
     (let p = default_purpose purposeArg in
      case findOne (recent_for (cast_email addr) p now) db of
        Some i \<Rightarrow>
          (Inl (Rethrown ''Failed to resend OTP: ''
                  (Error ''Please wait at least 1 minute before requesting a new OTP'')), db)
      | None \<Rightarrow>
          (case createOTP E salt n issue stamp db addr (Some p) of
             (Inl e, db') \<Rightarrow> (Inl (Rethrown ''Failed to resend OTP: '' e), db')
           | (Inr r, db') \<Rightarrow> (Inr r, db')))"

definition cleanupExpiredOTPs :: "int \<Rightarrow> otp_doc list \<Rightarrow> (js_error + nat) \<times> otp_doc list" where
  "cleanupExpiredOTPs now db =
     (Inr (length (filter (\<lambda>d. expiresAt d < now) db)),
      deleteMany (\<lambda>d. expiresAt d < now) db)"

subsection \<open>Sequences of operations\<close>

text \<open>
  The document that a successful \<open>createOTP\<close> leaves in the collection: the new
  document after the \<open>pre('save')\<close> hook has replaced its code by the digest.
\<close>

definition stored_otp ::
  "env \<Rightarrow> string \<Rightarrow> nat \<Rightarrow> int \<Rightarrow> int \<Rightarrow> string \<Rightarrow> string \<Rightarrow> otp_doc" where
  "stored_otp E salt n now stamp addr p =
     (new_otp E now stamp addr (generateOTP n) p)\<lparr>code := bcrypt_hash E salt (generateOTP n)\<rparr>"

text \<open>
  A caller's history is a list of calls, each with the clock readings and the randomness
  it meets; \<open>run\<close> gives the collection the history leaves behind. Failed calls keep
  whatever they had already written.
\<close>

datatype op =
    CreateOTP string nat int int string "string option"
  | VerifyOTP int string string "string option"
  | ResendOTP string nat int int int string "string option"
  | CleanupExpiredOTPs int

fun step :: "env \<Rightarrow> otp_doc list \<Rightarrow> op \<Rightarrow> otp_doc list" where
  "step E db (CreateOTP salt n now stamp addr pa) = snd (createOTP E salt n now stamp db addr pa)"
| "step E db (VerifyOTP now addr c pa) = snd (verifyOTP E now db addr c pa)"
| "step E db (ResendOTP salt n now issue stamp addr pa) =
     snd (resendOTP E salt n now issue stamp db addr pa)"
| "step E db (CleanupExpiredOTPs now) = snd (cleanupExpiredOTPs now db)"

definition run :: "env \<Rightarrow> otp_doc list \<Rightarrow> op list \<Rightarrow> otp_doc list" where
  "run E db ops = foldl (step E) db ops"

text \<open>Submitting a list of codes, one \<open>verifyOTP\<close> call after the other.\<close>

fun submit_all ::
  "env \<Rightarrow> otp_doc list \<Rightarrow> string \<Rightarrow> string option \<Rightarrow> (int \<times> string) list \<Rightarrow>
   (js_error + verification) list \<times> otp_doc list" where
  "submit_all E db addr pa [] = ([], db)"
| "submit_all E db addr pa ((t, c) # subs) =
     (let (res, db1) = verifyOTP E t db addr c pa;
          (rs, db2) = submit_all E db1 addr pa subs
      in (res # rs, db2))"

definition key_of :: "otp_doc \<Rightarrow> string \<times> string" where
  "key_of d = (email d, purpose d)"

definition one_per_key :: "otp_doc list \<Rightarrow> bool" where
  "one_per_key db = distinct (map key_of db)"

definition attempts_capped :: "otp_doc list \<Rightarrow> bool" where
  "attempts_capped db = list_all (\<lambda>d. attempts d \<le> 5) db"

section \<open>The OTP model of the Next.js back end (lib/models/OTP.ts)\<close>

text \<open>
  The second model of the repository keeps the code as it is (no hook, no bcrypt), has no
  attempt counter and no cool-down, and lets every error through unwrapped. Its schema
  lower-cases \<open>email\<close> without trimming it; \<open>email\<close>, \<open>otp\<close> and \<open>expiresAt\<close>
  are required (a required string must not be empty, a required \<open>Date\<close> must be a
  \<open>valid_date\<close>) and \<open>purpose\<close> is in the same enumeration. \<open>createOTP\<close> reads the
  clock for \<open>expiresAt\<close> and \<open>this.create\<close> stamps \<open>createdAt\<close> at a later reading.
\<close>

record iotp =
  ts_email :: string
  ts_otp :: string
  ts_purpose :: string
  ts_expiresAt :: int
  ts_isUsed :: bool
  ts_createdAt :: int
  ts_updatedAt :: int

definition ts_invalid_paths :: "iotp \<Rightarrow> string list" where
  "ts_invalid_paths d =
     (if ts_email d \<noteq> [] then [] else [''email'']) @
     (if ts_otp d \<noteq> [] then [] else [''otp'']) @
     (if ts_purpose d \<in> set purposes then [] else [''purpose'']) @
     (if valid_date (ts_expiresAt d) then [] else [''expiresAt''])"

definition ts_by_key :: "string \<Rightarrow> string \<Rightarrow> iotp \<Rightarrow> bool" where
  "ts_by_key a p d = (ts_email d = a \<and> ts_purpose d = p)"

definition ts_active_for :: "string \<Rightarrow> string \<Rightarrow> int \<Rightarrow> iotp \<Rightarrow> bool" where
  "ts_active_for a p now d = (ts_by_key a p d \<and> ts_isUsed d = False \<and> now < ts_expiresAt d)"

definition ts_createOTP ::
  "nat \<Rightarrow> int \<Rightarrow> int \<Rightarrow> iotp list \<Rightarrow> string \<Rightarrow> string option \<Rightarrow>
   (js_error + string \<times> int) \<times> iotp list" where
  "ts_createOTP n now stamp db addr purposeArg =
     (let p = default_purpose purposeArg;
          db1 = deleteMany (ts_by_key (toLowerCase addr) p) db;
          otpCode = generateOTP n;
          expires = now + 10 * 60 * 1000;
          doc = \<lparr>ts_email = toLowerCase addr, ts_otp = otpCode, ts_purpose = p,
                 ts_expiresAt = expires, ts_isUsed = False,
                 ts_createdAt = stamp, ts_updatedAt = stamp\<rparr>
      in if ts_invalid_paths doc \<noteq> [] then (Inl (ValidationError (ts_invalid_paths doc)), db1)
         else (Inr (otpCode, expires), db1 @ [doc]))"

definition ts_verifyOTP ::
  "int \<Rightarrow> iotp list \<Rightarrow> string \<Rightarrow> string \<Rightarrow> string option \<Rightarrow>
   (js_error + verification) \<times> iotp list" where
  "ts_verifyOTP now db addr submitted purposeArg =
     (let p = default_purpose purposeArg in
      case findOne (ts_active_for (toLowerCase addr) p now) db of
        None \<Rightarrow> (Inr \<lparr>valid = False, message = ''OTP not found or expired''\<rparr>, db)
      | Some i \<Rightarrow>
          (let otpRecord = db ! i in
           if ts_otp otpRecord \<noteq> submitted
           then (Inr \<lparr>valid = False, message = ''Invalid OTP code''\<rparr>, db)
           else
             (let used = otpRecord\<lparr>ts_isUsed := True\<rparr> in
              if ts_invalid_paths used \<noteq> [] then (Inl (ValidationError (ts_invalid_paths used)), db)
              else (Inr \<lparr>valid = True, message = ''OTP verified successfully''\<rparr>,
                    db[i := used\<lparr>ts_updatedAt := now\<rparr>]))))"

text \<open>\<open>resendOTP\<close> of this model repeats the body of \<open>createOTP\<close>: there is no cool-down.\<close>

definition ts_resendOTP ::
  "nat \<Rightarrow> int \<Rightarrow> int \<Rightarrow> iotp list \<Rightarrow> string \<Rightarrow> string option \<Rightarrow>
   (js_error + string \<times> int) \<times> iotp list" where
  "ts_resendOTP n now stamp db addr purposeArg = ts_createOTP n now stamp db addr purposeArg"

section \<open>An environment to run the model in\<close>

text \<open>
  A stand-in for bcryptjs with the shape of its digests (the prefix, the salt, sixty
  characters in all), used to evaluate the operations on concrete inputs.
\<close>

definition example_hash :: "string \<Rightarrow> string \<Rightarrow> string" where
  "example_hash salt s =
     take 60 (''$2a$12$'' @ salt @ s @
              ''............................................................'')"

definition example_env :: env where
  "example_env =
     \<lparr>bcrypt_hash = example_hash,
      bcrypt_compare = (\<lambda>s h. example_hash (take 22 (drop 7 h)) s = h),
      OTP_EXPIRE_MINUTES = None\<rparr>"

definition example_salt :: string where
  "example_salt = ''N9qo8uLOickgx2ZMRZoMye''"

text \<open>The digest of the code \<open>123456\<close> under \<open>example_hash\<close> and \<open>example_salt\<close>.\<close>

definition example_digest :: string where
  "example_digest = ''$2a$12$N9qo8uLOickgx2ZMRZoMye123456.........................''"

text \<open>A stored document with the given key, code, creation instant, counter and flag.\<close>

definition example_doc :: "string \<Rightarrow> string \<Rightarrow> string \<Rightarrow> int \<Rightarrow> nat \<Rightarrow> bool \<Rightarrow> otp_doc" where
  "example_doc a c p t k u =
     \<lparr>email = a, code = c, purpose = p, expiresAt = t + 600000, attempts = k, isUsed = u,
      createdAt = t, updatedAt = t\<rparr>"

section \<open>Facts about the Express model\<close>

subsection \<open>The e-mail pattern\<close>

text \<open>
  \<open>emailRegex_test\<close> accepts exactly the strings the pattern describes: a non-empty
  run of characters that are neither white space nor \<open>@\<close>, then \<open>@\<close>, such a run,
  a dot, and such a run again.
\<close>

lemma not_space_at_dot: "\<not> is_space CHR ''@''" "\<not> is_space CHR ''.''"
  by (simp_all add: is_space_def)

lemma emailRegex_test_parts:
  assumes t: "emailRegex_test s"
  shows "\<exists>a b c. s = a @ ''@'' @ b @ ''.'' @ c \<and> a \<noteq> [] \<and> b \<noteq> [] \<and> c \<noteq> [] \<and>
        (\<forall>x\<in>set (a @ b @ c). \<not> is_space x \<and> x \<noteq> CHR ''@'')"
proof -
  let ?P = "\<lambda>c. c \<noteq> CHR ''@''"
  define a where "a = takeWhile ?P s"
  have "\<exists>y host. dropWhile ?P s = y # host \<and> takeWhile ?P s \<noteq> [] \<and> \<not> list_ex is_space s
      \<and> CHR ''@'' \<notin> set host \<and> CHR ''.'' \<in> set (butlast (tl host))"
    using t unfolding emailRegex_test_def Let_def
    by (cases "dropWhile ?P s") simp_all
  then obtain y host where rest: "dropWhile ?P s = y # host"
    and name: "a \<noteq> []" and nosp: "\<not> list_ex is_space s"
    and noat: "CHR ''@'' \<notin> set host" and dot: "CHR ''.'' \<in> set (butlast (tl host))"
    unfolding a_def by blast
  have y: "y = CHR ''@''"
    using hd_dropWhile [of ?P s] rest by simp
  have "s = a @ dropWhile ?P s"
    by (simp add: a_def)
  then have s: "s = a @ ''@'' @ host"
    by (simp add: rest y)
  have "tl host \<noteq> []"
    using dot by auto
  then obtain h0 t where host: "host = h0 # t" and t: "t \<noteq> []"
    by (cases host) auto
  from dot host obtain u v where bt: "butlast t = u @ CHR ''.'' # v"
    by (auto simp: in_set_conv_decomp)
  have "butlast t @ [last t] = t"
    using t by (rule append_butlast_last_id)
  then have "(u @ CHR ''.'' # v) @ [last t] = t"
    by (simp only: bt)
  then have host': "host = (h0 # u) @ ''.'' @ (v @ [last t])"
    by (simp add: host)
  have all: "\<forall>x\<in>set s. \<not> is_space x"
    using nosp by (simp add: list_ex_iff)
  have a_noat: "\<forall>x\<in>set a. x \<noteq> CHR ''@''"
    by (auto simp: a_def dest: set_takeWhileD)
  have s': "s = a @ ''@'' @ (h0 # u) @ ''.'' @ (v @ [last t])"
    using s host' by simp
  have "\<forall>x\<in>set (a @ (h0 # u) @ (v @ [last t])). \<not> is_space x \<and> x \<noteq> CHR ''@''"
  proof
    fix x assume x: "x \<in> set (a @ (h0 # u) @ (v @ [last t]))"
    then have "x \<in> set s" by (subst s') auto
    moreover have "x \<noteq> CHR ''@''"
      using x a_noat noat host' by auto
    ultimately show "\<not> is_space x \<and> x \<noteq> CHR ''@''" using all by simp
  qed
  with s' name show ?thesis
    by (intro exI [of _ a] exI [of _ "h0 # u"] exI [of _ "v @ [last t]"]) simp
qed

lemma emailRegex_test_of_parts:
  assumes s: "s = a @ ''@'' @ b @ ''.'' @ c"
    and ne: "a \<noteq> []" "b \<noteq> []" "c \<noteq> []"
    and ok: "\<forall>x\<in>set (a @ b @ c). \<not> is_space x \<and> x \<noteq> CHR ''@''"
  shows "emailRegex_test s"
proof -
  let ?P = "\<lambda>c. c \<noteq> CHR ''@''"
  have a: "\<forall>x\<in>set a. ?P x"
    using ok by simp
  have tw: "takeWhile ?P s = a"
    unfolding s using a by (simp add: takeWhile_append2)
  have dw: "dropWhile ?P s = CHR ''@'' # (b @ ''.'' @ c)"
    unfolding s using a by (simp add: dropWhile_append2)
  have "\<forall>x\<in>set s. \<not> is_space x"
    unfolding s using ok not_space_at_dot by auto
  then have nosp: "\<not> list_ex is_space s"
    by (simp add: list_ex_iff)
  have noat: "CHR ''@'' \<notin> set (b @ ''.'' @ c)"
    using ok by auto
  obtain b0 b' where b: "b = b0 # b'" using ne(2) by (cases b) auto
  have "butlast (tl (b @ ''.'' @ c)) = b' @ ''.'' @ butlast c"
    using ne(3) by (simp add: b butlast_append)
  then have dot: "CHR ''.'' \<in> set (butlast (tl (b @ ''.'' @ c)))"
    by simp
  show "emailRegex_test s"
    unfolding emailRegex_test_def Let_def tw dw
    using ne(1) nosp noat dot by simp
qed

lemma emailRegex_test_iff:
  "emailRegex_test s \<longleftrightarrow>
     (\<exists>a b c. s = a @ ''@'' @ b @ ''.'' @ c \<and> a \<noteq> [] \<and> b \<noteq> [] \<and> c \<noteq> [] \<and>
        (\<forall>x\<in>set (a @ b @ c). \<not> is_space x \<and> x \<noteq> CHR ''@''))"
proof
  assume "emailRegex_test s"
  then show "\<exists>a b c. s = a @ ''@'' @ b @ ''.'' @ c \<and> a \<noteq> [] \<and> b \<noteq> [] \<and> c \<noteq> [] \<and>
        (\<forall>x\<in>set (a @ b @ c). \<not> is_space x \<and> x \<noteq> CHR ''@'')"
    by (rule emailRegex_test_parts)
next
  assume "\<exists>a b c. s = a @ ''@'' @ b @ ''.'' @ c \<and> a \<noteq> [] \<and> b \<noteq> [] \<and> c \<noteq> [] \<and>
        (\<forall>x\<in>set (a @ b @ c). \<not> is_space x \<and> x \<noteq> CHR ''@'')"
  then show "emailRegex_test s"
    by (elim exE conjE) (rule emailRegex_test_of_parts)
qed

subsection \<open>\<open>findOne\<close> and \<open>generateOTP\<close>\<close>

lemma findOne_None_iff: "findOne P xs = None \<longleftrightarrow> (\<forall>x\<in>set xs. \<not> P x)"
  by (induction xs) auto

lemma findOne_Some_nth: "findOne P xs = Some i \<Longrightarrow> i < length xs \<and> P (xs ! i)"
  by (induction xs arbitrary: i) (auto split: if_splits)

lemma findOne_append_fresh:
  "\<forall>x\<in>set xs. \<not> P x \<Longrightarrow> P y \<Longrightarrow> findOne P (xs @ [y]) = Some (length xs)"
  by (induction xs) auto

lemma digit_char_digit: "d < 10 \<Longrightarrow> digit_char d \<in> set ''0123456789''"
  unfolding digit_char_def by (rule nth_mem) simp

lemma decimal_digits: "set (decimal n) \<subseteq> set ''0123456789''"
proof (induction n rule: decimal.induct)
  case (1 n)
  show ?case
  proof (cases "n < 10")
    case True
    then show ?thesis using digit_char_digit [of n] by (subst decimal.simps) simp
  next
    case False
    have "n mod 10 < 10" by simp
    then have "digit_char (n mod 10) \<in> set ''0123456789''" by (rule digit_char_digit)
    with False 1 show ?thesis by (subst decimal.simps) simp
  qed
qed

lemma length_generateOTP: "length (generateOTP n) = 6"
  by (simp add: generateOTP_def Let_def)

lemma generateOTP_digits: "set (generateOTP n) \<subseteq> set ''0123456789''"
proof -
  have "set (generateOTP n) \<subseteq> set (''000000'' @ decimal n)"
    unfolding generateOTP_def Let_def by (rule set_drop_subset)
  also have "\<dots> \<subseteq> set ''0123456789''"
    using decimal_digits [of n] by auto
  finally show ?thesis .
qed

subsection \<open>\<open>createOTP\<close>: when it returns and what it stores\<close>

text \<open>
  The generated code always has six characters, so the new document fails validation
  exactly when the address fails the e-mail pattern, the purpose is outside the
  enumeration, or \<open>now + TTL\<close> is outside the range of \<open>Date\<close>. \<open>createOTP\<close> has
  deleted the records of the pair by then.
\<close>

lemma invalid_paths_new_otp:
  "invalid_paths (new_otp E now stamp addr (generateOTP n) p) =
     (if emailRegex_test (cast_email addr) then [] else [''email'']) @
     (if p \<in> set purposes then [] else [''purpose'']) @
     (if valid_date (now + expire_minutes E * 60 * 1000) then [] else [''expiresAt''])"
  by (simp add: invalid_paths_def new_otp_def length_generateOTP)

lemma createOTP_valid:
  assumes "emailRegex_test (cast_email addr)" and "default_purpose pa \<in> set purposes"
    and "valid_date (now + expire_minutes E * 60 * 1000)"
  shows "createOTP E salt n now stamp db addr pa =
           (Inr (Issued (generateOTP n) (now + expire_minutes E * 60 * 1000) (default_purpose pa)),
            deleteMany (by_key (cast_email addr) (default_purpose pa)) db
              @ [stored_otp E salt n now stamp addr (default_purpose pa)])"
proof -
  let ?doc = "new_otp E now stamp addr (generateOTP n) (default_purpose pa)"
  have "invalid_paths ?doc = []"
    using assms by (simp add: invalid_paths_new_otp)
  moreover have "pre_save E salt True (?doc\<lparr>updatedAt := createdAt ?doc\<rparr>)
      = stored_otp E salt n now stamp addr (default_purpose pa)"
    by (simp add: pre_save_def stored_otp_def new_otp_def)
  moreover have "expiresAt ?doc = now + expire_minutes E * 60 * 1000" and "purpose ?doc = default_purpose pa"
    by (simp_all add: new_otp_def)
  ultimately show ?thesis
    by (simp add: createOTP_def Let_def save_new_def)
qed

lemma createOTP_invalid:
  assumes "\<not> (emailRegex_test (cast_email addr) \<and> default_purpose pa \<in> set purposes
              \<and> valid_date (now + expire_minutes E * 60 * 1000))"
  shows "createOTP E salt n now stamp db addr pa =
           (Inl (Rethrown ''Failed to create OTP: ''
                   (ValidationError (invalid_paths (new_otp E now stamp addr (generateOTP n) (default_purpose pa))))),
            deleteMany (by_key (cast_email addr) (default_purpose pa)) db)"
  using assms
  by (auto simp add: createOTP_def Let_def save_new_def invalid_paths_new_otp)

lemma createOTP_Inr_valid:
  assumes "createOTP E salt n now stamp db addr pa = (Inr r, db')"
  shows "emailRegex_test (cast_email addr) \<and> default_purpose pa \<in> set purposes
           \<and> valid_date (now + expire_minutes E * 60 * 1000)"
proof (rule ccontr)
  assume "\<not> ?thesis"
  from createOTP_invalid [OF this] assms show False by simp
qed

lemma createOTP_ignores_compare:
  "createOTP (E\<lparr>bcrypt_compare := cmp\<rparr>) salt n now stamp db addr pa =
   createOTP E salt n now stamp db addr pa"
  by (simp add: createOTP_def save_new_def pre_save_def new_otp_def expire_minutes_def Let_def)

lemma stored_otp_fields [simp]:
  "email (stored_otp E salt n now stamp addr p) = cast_email addr"
  "code (stored_otp E salt n now stamp addr p) = bcrypt_hash E salt (generateOTP n)"
  "purpose (stored_otp E salt n now stamp addr p) = p"
  "expiresAt (stored_otp E salt n now stamp addr p) = now + expire_minutes E * 60 * 1000"
  "attempts (stored_otp E salt n now stamp addr p) = 0"
  "isUsed (stored_otp E salt n now stamp addr p) = False"
  "createdAt (stored_otp E salt n now stamp addr p) = stamp"
  by (simp_all add: stored_otp_def new_otp_def)

lemma by_key_stored_otp [simp]: "by_key (cast_email addr) p (stored_otp E salt n now stamp addr p)"
  by (simp add: by_key_def)

lemma createOTP_store:
  "snd (createOTP E salt n now stamp db addr pa) =
     deleteMany (by_key (cast_email addr) (default_purpose pa)) db @
     (if emailRegex_test (cast_email addr) \<and> default_purpose pa \<in> set purposes
           \<and> valid_date (now + expire_minutes E * 60 * 1000)
      then [stored_otp E salt n now stamp addr (default_purpose pa)] else [])"
proof (cases "emailRegex_test (cast_email addr) \<and> default_purpose pa \<in> set purposes
           \<and> valid_date (now + expire_minutes E * 60 * 1000)")
  case True
  then show ?thesis by (simp add: createOTP_valid)
next
  case False
  then show ?thesis by (simp add: createOTP_invalid)
qed

lemma emailRegex_test_has_at: "emailRegex_test s \<Longrightarrow> CHR ''@'' \<in> set s"
proof -
  assume "emailRegex_test s"
  then obtain y host where rest: "dropWhile (\<lambda>c. c \<noteq> CHR ''@'') s = y # host"
    by (auto simp: emailRegex_test_def Let_def split: list.splits)
  then have "y = CHR ''@''"
    using hd_dropWhile [of "\<lambda>c. c \<noteq> CHR ''@''" s] by simp
  moreover have "y \<in> set s"
    using rest set_dropWhileD [of y "\<lambda>c. c \<noteq> CHR ''@''" s] by simp
  ultimately show ?thesis by simp
qed

lemma purposes_not_digits: "p \<in> set purposes \<Longrightarrow> \<not> set p \<subseteq> set ''0123456789''"
  by (auto simp: purposes_def)

subsection \<open>\<open>verifyOTP\<close>, branch by branch\<close>

lemma verifyOTP_branch_not_found:
  assumes "\<forall>d\<in>set db. \<not> active_for (cast_email addr) (default_purpose pa) now d"
  shows "verifyOTP E now db addr c pa =
           (Inr \<lparr>valid = False, message = ''Invalid or expired OTP''\<rparr>, db)"
proof -
  have "findOne (active_for (cast_email addr) (default_purpose pa) now) db = None"
    using assms by (simp add: findOne_None_iff)
  then show ?thesis by (simp add: verifyOTP_def)
qed

lemma verifyOTP_branch_too_many:
  assumes "findOne (active_for (cast_email addr) (default_purpose pa) now) db = Some i"
    and "5 \<le> attempts (db ! i)"
  shows "verifyOTP E now db addr c pa =
           (Inr \<lparr>valid = False, message = ''Too many attempts. Please request a new OTP.''\<rparr>, db)"
  using assms by (simp add: verifyOTP_def Let_def)

lemma verifyOTP_branch_rejected:
  assumes "findOne (active_for (cast_email addr) (default_purpose pa) now) db = Some i"
    and "attempts (db ! i) < 5"
    and "invalid_paths ((db ! i)\<lparr>attempts := attempts (db ! i) + 1\<rparr>) \<noteq> []"
  shows "verifyOTP E now db addr c pa =
           (Inl (Rethrown ''OTP verification failed: ''
              (ValidationError (invalid_paths ((db ! i)\<lparr>attempts := attempts (db ! i) + 1\<rparr>)))), db)"
  using assms by (simp add: verifyOTP_def Let_def save_loaded_def)

lemma invalid_paths_isUsed [simp]: "invalid_paths (d\<lparr>isUsed := b\<rparr>) = invalid_paths d"
  by (simp add: invalid_paths_def)

lemma invalid_paths_updatedAt [simp]: "invalid_paths (d\<lparr>updatedAt := b\<rparr>) = invalid_paths d"
  by (simp add: invalid_paths_def)

lemma verifyOTP_branch_mismatch:
  assumes "findOne (active_for (cast_email addr) (default_purpose pa) now) db = Some i"
    and "attempts (db ! i) < 5"
    and "invalid_paths ((db ! i)\<lparr>attempts := attempts (db ! i) + 1\<rparr>) = []"
    and "\<not> bcrypt_compare E c (code (db ! i))"
  shows "verifyOTP E now db addr c pa =
           (Inr \<lparr>valid = False, message = ''Invalid OTP code''\<rparr>,
            db[i := (db ! i)\<lparr>attempts := attempts (db ! i) + 1, updatedAt := now\<rparr>])"
  using assms by (simp add: verifyOTP_def Let_def save_loaded_def pre_save_def)

lemma verifyOTP_branch_match:
  assumes "findOne (active_for (cast_email addr) (default_purpose pa) now) db = Some i"
    and "attempts (db ! i) < 5"
    and "invalid_paths ((db ! i)\<lparr>attempts := attempts (db ! i) + 1\<rparr>) = []"
    and "bcrypt_compare E c (code (db ! i))"
  shows "verifyOTP E now db addr c pa =
           (Inr \<lparr>valid = True, message = ''OTP verified successfully''\<rparr>,
            db[i := (db ! i)\<lparr>attempts := attempts (db ! i) + 1, isUsed := True, updatedAt := now\<rparr>])"
  using assms by (simp add: verifyOTP_def Let_def save_loaded_def pre_save_def)

subsection \<open>What every history of calls preserves\<close>

text \<open>
  Each pair of address and purpose has at most one record, and no \<open>attempts\<close> counter
  is above 5.
\<close>

lemma by_key_key_of: "by_key a p d \<longleftrightarrow> key_of d = (a, p)"
  by (auto simp: by_key_def key_of_def)

lemma one_per_key_unique:
  assumes "one_per_key db" and "d \<in> set db" and "x \<in> set db" and "key_of x = key_of d"
  shows "x = d"
proof -
  from assms(1) have "inj_on key_of (set db)"
    by (simp add: one_per_key_def distinct_map)
  with assms(2-4) show ?thesis
    by (simp add: inj_on_def)
qed

lemma one_per_key_deleteMany: "one_per_key db \<Longrightarrow> one_per_key (deleteMany P db)"
  by (simp add: one_per_key_def deleteMany_def distinct_map_filter)

lemma key_not_in_deleteMany: "(a, p) \<notin> key_of ` set (deleteMany (by_key a p) db)"
  by (auto simp: deleteMany_def by_key_key_of)

lemma resendOTP_store:
  "snd (resendOTP E salt n now issue stamp db addr pa) = db \<or>
   snd (resendOTP E salt n now issue stamp db addr pa) =
     snd (createOTP E salt n issue stamp db addr (Some (default_purpose pa)))"
  by (simp add: resendOTP_def Let_def split: option.splits prod.splits sum.splits)

lemma verifyOTP_store:
  "snd (verifyOTP E now db addr c pa) = db \<or>
   (\<exists>i d'. i < length db \<and> attempts (db ! i) < 5 \<and> key_of d' = key_of (db ! i) \<and>
      attempts d' = attempts (db ! i) + 1 \<and> snd (verifyOTP E now db addr c pa) = db[i := d'])"
proof (cases "findOne (active_for (cast_email addr) (default_purpose pa) now) db")
  case None
  then show ?thesis by (simp add: verifyOTP_def)
next
  case (Some i)
  let ?d1 = "(db ! i)\<lparr>attempts := attempts (db ! i) + 1\<rparr>"
  from Some have i: "i < length db" by (simp add: findOne_Some_nth)
  consider (cap) "5 \<le> attempts (db ! i)"
    | (bad) "attempts (db ! i) < 5" "invalid_paths ?d1 \<noteq> []"
    | (no) "attempts (db ! i) < 5" "invalid_paths ?d1 = []" "\<not> bcrypt_compare E c (code (db ! i))"
    | (yes) "attempts (db ! i) < 5" "invalid_paths ?d1 = []" "bcrypt_compare E c (code (db ! i))"
    by fastforce
  then show ?thesis
  proof cases
    case cap
    then show ?thesis using Some by (simp add: verifyOTP_branch_too_many)
  next
    case bad
    then show ?thesis using Some by (simp add: verifyOTP_branch_rejected)
  next
    case no
    have "snd (verifyOTP E now db addr c pa) = db[i := ?d1\<lparr>updatedAt := now\<rparr>]"
      using verifyOTP_branch_mismatch [OF Some no] by simp
    moreover have "key_of (?d1\<lparr>updatedAt := now\<rparr>) = key_of (db ! i)"
      by (simp add: key_of_def)
    ultimately show ?thesis using i no(1)
      by (intro disjI2 exI [of _ i] exI [of _ "?d1\<lparr>updatedAt := now\<rparr>"]) simp
  next
    case yes
    have "snd (verifyOTP E now db addr c pa) = db[i := ?d1\<lparr>isUsed := True, updatedAt := now\<rparr>]"
      using verifyOTP_branch_match [OF Some yes] by simp
    moreover have "key_of (?d1\<lparr>isUsed := True, updatedAt := now\<rparr>) = key_of (db ! i)"
      by (simp add: key_of_def)
    ultimately show ?thesis using i yes(1)
      by (intro disjI2 exI [of _ i] exI [of _ "?d1\<lparr>isUsed := True, updatedAt := now\<rparr>"]) simp
  qed
qed

lemma one_per_key_createOTP:
  assumes "one_per_key db"
  shows "one_per_key (snd (createOTP E salt n now stamp db addr pa))"
proof (cases "emailRegex_test (cast_email addr) \<and> default_purpose pa \<in> set purposes
           \<and> valid_date (now + expire_minutes E * 60 * 1000)")
  case True
  let ?a = "cast_email addr" and ?p = "default_purpose pa"
  have "distinct (map key_of (deleteMany (by_key ?a ?p) db))"
    using one_per_key_deleteMany [OF assms] by (simp add: one_per_key_def)
  moreover have "key_of (stored_otp E salt n now stamp addr ?p) = (?a, ?p)"
    by (simp add: key_of_def)
  ultimately show ?thesis
    using True key_not_in_deleteMany [of ?a ?p db]
    by (simp add: createOTP_valid one_per_key_def)
next
  case False
  then show ?thesis
    using one_per_key_deleteMany [OF assms] by (simp add: createOTP_invalid)
qed

lemma one_per_key_step: "one_per_key db \<Longrightarrow> one_per_key (step E db x)"
proof (cases x)
  case (CreateOTP salt n now stamp addr pa)
  assume "one_per_key db"
  then show ?thesis using CreateOTP by (simp add: add: one_per_key_createOTP)
next
  case (VerifyOTP now addr c pa)
  assume inv: "one_per_key db"
  have "map key_of (db[i := d']) = map key_of db" if "i < length db" "key_of d' = key_of (db ! i)" for i d'
    using that by (simp add: map_update list_update_same_conv)
  then show ?thesis
    using inv VerifyOTP verifyOTP_store [of E now db addr c pa]
    by (auto simp: one_per_key_def)
next
  case (ResendOTP salt n now issue stamp addr pa)
  assume "one_per_key db"
  then show ?thesis
    using ResendOTP resendOTP_store [of E salt n now issue stamp db addr pa]
    by (auto simp: one_per_key_createOTP)
next
  case (CleanupExpiredOTPs now)
  assume "one_per_key db"
  then show ?thesis using CleanupExpiredOTPs
    by (simp add: cleanupExpiredOTPs_def one_per_key_deleteMany)
qed

lemma one_per_key_run: "one_per_key db \<Longrightarrow> one_per_key (run E db ops)"
  unfolding run_def by (induction ops arbitrary: db) (simp_all add: one_per_key_step)

lemma attempts_capped_deleteMany: "attempts_capped db \<Longrightarrow> attempts_capped (deleteMany P db)"
  by (simp add: attempts_capped_def deleteMany_def list_all_iff)

lemma attempts_capped_step: "attempts_capped db \<Longrightarrow> attempts_capped (step E db x)"
proof (cases x)
  case (CreateOTP salt n now stamp addr pa)
  assume "attempts_capped db"
  then have "attempts_capped (deleteMany (by_key (cast_email addr) (default_purpose pa)) db)"
    by (rule attempts_capped_deleteMany)
  then show ?thesis using CreateOTP
    by (simp add: createOTP_store attempts_capped_def)
next
  case (VerifyOTP now addr c pa)
  assume inv: "attempts_capped db"
  have "attempts_capped (db[i := d'])" if "attempts d' \<le> 5" for i d'
    using inv that set_update_subset_insert [of db i d']
    by (auto simp: attempts_capped_def list_all_iff)
  then show ?thesis
    using inv VerifyOTP verifyOTP_store [of E now db addr c pa] by auto
next
  case (ResendOTP salt n now issue stamp addr pa)
  assume inv: "attempts_capped db"
  then have "attempts_capped (deleteMany (by_key (cast_email addr) (default_purpose pa)) db)"
    by (rule attempts_capped_deleteMany)
  then have "attempts_capped (snd (createOTP E salt n issue stamp db addr (Some (default_purpose pa))))"
    by (simp add: createOTP_store attempts_capped_def default_purpose_def)
  then show ?thesis
    using inv ResendOTP resendOTP_store [of E salt n now issue stamp db addr pa] by auto
next
  case (CleanupExpiredOTPs now)
  assume "attempts_capped db"
  then show ?thesis using CleanupExpiredOTPs
    by (simp add: cleanupExpiredOTPs_def attempts_capped_deleteMany)
qed

lemma attempts_capped_run: "attempts_capped db \<Longrightarrow> attempts_capped (run E db ops)"
  unfolding run_def by (induction ops arbitrary: db) (simp_all add: attempts_capped_step)

subsection \<open>Evaluating the model on concrete inputs\<close>

lemmas string_eval =
  cast_email_def trim_def toLowerCase_def toLowerCase_char_def is_space_def char_of_def
  bit_Suc_0_iff emailRegex_test_def generateOTP_def decimal.simps digit_char_def

lemmas otp_eval =
  createOTP_def verifyOTP_def resendOTP_def cleanupExpiredOTPs_def save_new_def save_loaded_def
  pre_save_def invalid_paths_def new_otp_def deleteMany_def by_key_def active_for_def
  recent_for_def default_purpose_def purposes_def expire_minutes_def valid_date_def Let_def
  example_env_def example_hash_def example_salt_def example_digest_def example_doc_def

subsection \<open>Verifying a code that \<open>createOTP\<close> issued\<close>

text \<open>
  \<open>verifyOTP\<close> uses the address only through \<open>cast_email\<close>. On the record of a
  successful \<open>createOTP\<close>, before its expiry, the lookup finds that record with
  \<open>attempts = 0\<close>; the loaded document, with \<open>attempts\<close> set to 1, is then saved.
  Its \<open>code\<close> is the digest, sixty characters long, so the validator of \<open>code\<close>
  (\<open>maxlength\<close> 6) rejects the document, \<open>save\<close> throws, and \<open>verifyOTP\<close>
  rethrows without having written anything or compared the code.
\<close>

lemma verifyOTP_cast_email:
  assumes "cast_email a = cast_email b"
  shows "verifyOTP E now db a c pa = verifyOTP E now db b c pa"
  using assms by (simp add: verifyOTP_def)

lemma toLowerCase_cast_email:
  "toLowerCase a = toLowerCase b \<Longrightarrow> cast_email a = cast_email b"
  by (simp add: cast_email_def)

lemma findOne_issued:
  assumes "t1 < t0 + expire_minutes E * 60 * 1000"
  shows "findOne (active_for (cast_email addr) p t1)
           (deleteMany (by_key (cast_email addr) p) db @ [stored_otp E salt n t0 s0 addr p])
         = Some (length (deleteMany (by_key (cast_email addr) p) db))"
proof (rule findOne_append_fresh)
  show "\<forall>x\<in>set (deleteMany (by_key (cast_email addr) p) db).
          \<not> active_for (cast_email addr) p t1 x"
    by (simp add: deleteMany_def active_for_def)
  show "active_for (cast_email addr) p t1 (stored_otp E salt n t0 s0 addr p)"
    using assms by (simp add: active_for_def)
qed

lemma verifyOTP_issued_throws:
  assumes created: "createOTP E salt n t0 s0 db addr pa = (Inr r, db')"
    and digest: "length (bcrypt_hash E salt (otp r)) = 60"
    and fresh: "t1 < issued_expiresAt r"
    and same: "cast_email addr' = cast_email addr"
  shows "verifyOTP E t1 db' addr' c pa =
           (Inl (Rethrown ''OTP verification failed: '' (ValidationError [''code''])), db')"
proof -
  let ?a = "cast_email addr" and ?p = "default_purpose pa"
  let ?old = "deleteMany (by_key ?a ?p) db"
  let ?doc = "stored_otp E salt n t0 s0 addr ?p"
  have ok: "emailRegex_test ?a" "?p \<in> set purposes"
    "valid_date (t0 + expire_minutes E * 60 * 1000)"
    using createOTP_Inr_valid [OF created] by simp_all
  from created createOTP_valid [OF ok, of salt n s0 db]
  have r: "r = Issued (generateOTP n) (t0 + expire_minutes E * 60 * 1000) ?p"
    and db': "db' = ?old @ [?doc]"
    by simp_all
  have found: "findOne (active_for (cast_email addr') ?p t1) db' = Some (length ?old)"
    using fresh findOne_issued [of t1 t0 E addr ?p db salt n s0] by (simp add: r db' same)
  have doc: "db' ! length ?old = ?doc"
    by (simp add: db')
  have "invalid_paths (?doc\<lparr>attempts := attempts ?doc + 1\<rparr>) = [''code'']"
    using ok digest by (simp add: invalid_paths_def r)
  then have "invalid_paths ((db' ! length ?old)\<lparr>attempts := attempts (db' ! length ?old) + 1\<rparr>)
      = [''code'']"
    by (simp only: doc)
  moreover have "attempts (db' ! length ?old) < 5"
    by (simp add: doc)
  ultimately show ?thesis
    using verifyOTP_branch_rejected [OF found, of E c] by simp
qed

subsection \<open>Sample calls in the example environment\<close>

lemma example_issue:
  "createOTP example_env example_salt 123456 0 0 [] ''a@x.com'' (Some ''signup'') =
     (Inr (Issued ''123456'' 600000 ''signup''),
      [example_doc ''a@x.com'' example_digest ''signup'' 0 0 False])"
  by (simp add: otp_eval string_eval)

lemma example_issue_mixed_case:
  "createOTP example_env example_salt 123456 0 0 [] ''Alice@Example.COM'' (Some ''signup'') =
     (Inr (Issued ''123456'' 600000 ''signup''),
      [example_doc ''alice@example.com'' example_digest ''signup'' 0 0 False])"
  by (simp add: otp_eval string_eval)

lemma example_reissue:
  "createOTP example_env example_salt 123456 700000 700000
     [example_doc ''a@x.com'' ''old-digest-1'' ''signup'' 0 2 False,
      example_doc ''b@y.org'' ''old-digest-2'' ''login'' 650000 0 False,
      example_doc ''a@x.com'' ''old-digest-3'' ''signup'' 660000 0 False]
     '' A@X.com'' None
   = (Inr (Issued ''123456'' 1300000 ''signup''),
      [example_doc ''b@y.org'' ''old-digest-2'' ''login'' 650000 0 False,
       example_doc ''a@x.com''
         example_digest
         ''signup'' 700000 0 False])"
  by (simp add: otp_eval string_eval example_doc_def)

lemma example_run:
  "run example_env [] [CreateOTP example_salt 123456 0 0 ''a@x.com'' None]
   = [example_doc ''a@x.com''
        example_digest
        ''signup'' 0 0 False]"
  by (simp add: run_def otp_eval string_eval example_doc_def)

section \<open>The Next.js model on the same inputs\<close>

text \<open>
  The second model has no length validator on its code field and no hook, so the flow that
  throws in the Express model goes through here: the issued code is accepted once, and
  after that no active record is left. It stores the code as it is, and its \<open>resendOTP\<close>
  is its \<open>createOTP\<close>.
\<close>

lemma generateOTP_nonempty: "generateOTP n \<noteq> []"
  using length_generateOTP [of n] by auto

lemma ts_createOTP_valid:
  assumes "toLowerCase addr \<noteq> []" and "default_purpose pa \<in> set purposes"
    and "valid_date (now + 10 * 60 * 1000)"
  shows "ts_createOTP n now stamp db addr pa =
           (Inr (generateOTP n, now + 10 * 60 * 1000),
            deleteMany (ts_by_key (toLowerCase addr) (default_purpose pa)) db @
            [\<lparr>ts_email = toLowerCase addr, ts_otp = generateOTP n,
              ts_purpose = default_purpose pa, ts_expiresAt = now + 10 * 60 * 1000,
              ts_isUsed = False, ts_createdAt = stamp, ts_updatedAt = stamp\<rparr>])"
  using assms by (simp add: ts_createOTP_def Let_def ts_invalid_paths_def generateOTP_nonempty)

lemma ts_createOTP_Inr_valid:
  assumes "ts_createOTP n now stamp db addr pa = (Inr r, db')"
  shows "toLowerCase addr \<noteq> [] \<and> default_purpose pa \<in> set purposes
           \<and> valid_date (now + 10 * 60 * 1000)"
  using assms
  by (auto simp: ts_createOTP_def Let_def ts_invalid_paths_def split: if_splits)

lemma ts_createOTP_stores_plaintext:
  assumes "ts_createOTP n now stamp db addr pa = (Inr (c, e), db')"
  shows "db' \<noteq> [] \<and> ts_otp (last db') = c"
proof -
  have ok: "toLowerCase addr \<noteq> []" "default_purpose pa \<in> set purposes"
    "valid_date (now + 10 * 60 * 1000)"
    using ts_createOTP_Inr_valid [OF assms] by simp_all
  from assms ts_createOTP_valid [OF ok, of n stamp db] show ?thesis by auto
qed

lemma ts_verifyOTP_accepts_once:
  assumes created: "ts_createOTP n t0 s0 db addr pa = (Inr (c, e), db')"
    and fresh: "t1 < e"
  shows "fst (ts_verifyOTP t1 db' addr c pa) =
           Inr \<lparr>valid = True, message = ''OTP verified successfully''\<rparr>
       \<and> ts_verifyOTP t2 (snd (ts_verifyOTP t1 db' addr c pa)) addr c' pa =
           (Inr \<lparr>valid = False, message = ''OTP not found or expired''\<rparr>,
            snd (ts_verifyOTP t1 db' addr c pa))"
proof -
  let ?a = "toLowerCase addr" and ?p = "default_purpose pa"
  let ?old = "deleteMany (ts_by_key ?a ?p) db"
  let ?doc = "\<lparr>ts_email = ?a, ts_otp = generateOTP n, ts_purpose = ?p,
      ts_expiresAt = t0 + 10 * 60 * 1000, ts_isUsed = False, ts_createdAt = s0, ts_updatedAt = s0\<rparr>"
  let ?used = "?doc\<lparr>ts_isUsed := True, ts_updatedAt := t1\<rparr>"
  have ok: "?a \<noteq> []" "?p \<in> set purposes" "valid_date (t0 + 10 * 60 * 1000)"
    using ts_createOTP_Inr_valid [OF created] by simp_all
  have "((Inr (c, e) :: js_error + string \<times> int), db')
      = (Inr (generateOTP n, t0 + 10 * 60 * 1000), ?old @ [?doc])"
    using created [symmetric] ts_createOTP_valid [OF ok, of n s0 db] by (rule trans)
  then have c: "c = generateOTP n" and e: "e = t0 + 10 * 60 * 1000" and db': "db' = ?old @ [?doc]"
    by simp_all
  have no_old: "\<forall>x\<in>set ?old. \<not> ts_active_for ?a ?p t x" for t
    by (simp add: deleteMany_def ts_active_for_def)
  have "ts_active_for ?a ?p t1 ?doc"
    using fresh by (simp add: ts_active_for_def ts_by_key_def e)
  with no_old have found: "findOne (ts_active_for ?a ?p t1) db' = Some (length ?old)"
    unfolding db' by (intro findOne_append_fresh) simp_all
  have first: "ts_verifyOTP t1 db' addr c pa =
      (Inr \<lparr>valid = True, message = ''OTP verified successfully''\<rparr>, ?old @ [?used])"
    using ok found
    by (simp add: ts_verifyOTP_def Let_def db' c ts_invalid_paths_def generateOTP_nonempty)
  have "\<forall>x\<in>set (?old @ [?used]). \<not> ts_active_for ?a ?p t2 x"
    using no_old [of t2] by (simp add: ts_active_for_def)
  then have "findOne (ts_active_for ?a ?p t2) (?old @ [?used]) = None"
    by (simp only: findOne_None_iff)
  then have second: "ts_verifyOTP t2 (?old @ [?used]) addr c' pa =
      (Inr \<lparr>valid = False, message = ''OTP not found or expired''\<rparr>, ?old @ [?used])"
    by (simp add: ts_verifyOTP_def)
  from first second show ?thesis by simp
qed

lemma ts_resendOTP_no_cooldown:
  "ts_resendOTP n now stamp (snd (ts_createOTP m now stamp db addr pa)) addr pa
     = ts_createOTP n now stamp (snd (ts_createOTP m now stamp db addr pa)) addr pa"
  by (simp add: ts_resendOTP_def)

section \<open>The claims\<close>

text \<open>
  C1. The claim: \<open>verifyOTP\<close> with the matching address and purpose and the correct
  code, while the record is eligible, returns \<open>valid = true\<close> and marks the record used.
  What the code does: the record that \<open>createOTP\<close> stored holds the sixty-character
  digest in \<open>code\<close>, the first \<open>otp.save()\<close> of \<open>verifyOTP\<close> validates it
  against \<open>maxlength: 6\<close> and rejects, and \<open>verifyOTP\<close> throws with nothing
  written. Stated for any collection, any address and any issued code.
\<close>

theorem verifyOTP_correct_code_throws:
  assumes "createOTP E salt n t0 s0 db addr pa = (Inr r, db')"
    and "length (bcrypt_hash E salt (otp r)) = 60"
    and "t1 < issued_expiresAt r"
  shows "verifyOTP E t1 db' addr (otp r) pa =
           (Inl (Rethrown ''OTP verification failed: '' (ValidationError [''code''])), db')"
  using assms by (intro verifyOTP_issued_throws) simp_all

theorem verifyOTP_correct_code_throws_witness:
  "createOTP example_env example_salt 123456 0 0 [] ''a@x.com'' (Some ''signup'') =
     (Inr (Issued ''123456'' 600000 ''signup''),
      [example_doc ''a@x.com'' example_digest ''signup'' 0 0 False])
   \<and> length (bcrypt_hash example_env example_salt ''123456'') = 60
   \<and> (1000::int) < 600000
   \<and> verifyOTP example_env 1000
        [example_doc ''a@x.com'' example_digest ''signup'' 0 0 False]
        ''a@x.com'' ''123456'' (Some ''signup'')
      = (Inl (Rethrown ''OTP verification failed: '' (ValidationError [''code''])),
         [example_doc ''a@x.com'' example_digest ''signup'' 0 0 False])"
proof -
  have digest: "length (bcrypt_hash example_env example_salt (otp (Issued ''123456'' 600000 ''signup''))) = 60"
    by (simp add: example_env_def example_hash_def example_salt_def)
  have fresh: "1000 < issued_expiresAt (Issued ''123456'' 600000 ''signup'')"
    by simp
  from verifyOTP_correct_code_throws [OF example_issue digest fresh] digest example_issue
  show ?thesis by simp
qed

text \<open>
  C2. The claim: every \<open>verifyOTP\<close> call with an incorrect code adds one to
  \<open>attempts\<close>, and the sixth submission after five incorrect ones is answered with the
  too-many-attempts failure. What the code does on a record that \<open>createOTP\<close> issued: the
  increment is made on the loaded document only, the \<open>save\<close> that would write it is
  rejected (the defect of C1), so every submission throws, the stored counter stays at 0
  and the cap is never reached. Stated for any list of submissions made before expiry.
\<close>

theorem submit_all_never_counts:
  assumes "createOTP E salt n t0 s0 db addr pa = (Inr r, db')"
    and "length (bcrypt_hash E salt (otp r)) = 60"
    and "list_all (\<lambda>(t, c). t < issued_expiresAt r) subs"
  shows "submit_all E db' addr pa subs =
           (replicate (length subs)
              (Inl (Rethrown ''OTP verification failed: '' (ValidationError [''code'']))),
            db')"
  using assms(3)
proof (induction subs)
  case Nil
  show ?case by simp
next
  case (Cons s subs)
  obtain t c where s: "s = (t, c)" by (cases s)
  from Cons.prems s have t: "t < issued_expiresAt r" and rest: "list_all (\<lambda>(t, c). t < issued_expiresAt r) subs"
    by simp_all
  have "verifyOTP E t db' addr c pa =
          (Inl (Rethrown ''OTP verification failed: '' (ValidationError [''code''])), db')"
    using assms(1,2) t by (intro verifyOTP_issued_throws) simp_all
  with Cons.IH [OF rest] s show ?case by simp
qed

theorem submit_all_never_counts_witness:
  "createOTP example_env example_salt 123456 0 0 [] ''a@x.com'' (Some ''signup'') =
     (Inr (Issued ''123456'' 600000 ''signup''),
      [example_doc ''a@x.com'' example_digest ''signup'' 0 0 False])
   \<and> length (bcrypt_hash example_env example_salt ''123456'') = 60
   \<and> list_all (\<lambda>(t, c). t < (600000::int))
        [(1000, ''000000''), (2000, ''000001''), (3000, ''000002''),
         (4000, ''000003''), (5000, ''000004''), (6000, ''123456'')]
   \<and> submit_all example_env
        [example_doc ''a@x.com'' example_digest ''signup'' 0 0 False]
        ''a@x.com'' (Some ''signup'')
        [(1000, ''000000''), (2000, ''000001''), (3000, ''000002''),
         (4000, ''000003''), (5000, ''000004''), (6000, ''123456'')]
      = (replicate 6 (Inl (Rethrown ''OTP verification failed: '' (ValidationError [''code'']))),
         [example_doc ''a@x.com'' example_digest ''signup'' 0 0 False])"
proof -
  let ?subs = "[(1000::int, ''000000''), (2000, ''000001''), (3000, ''000002''),
         (4000, ''000003''), (5000, ''000004''), (6000, ''123456'')]"
  have digest: "length (bcrypt_hash example_env example_salt (otp (Issued ''123456'' 600000 ''signup''))) = 60"
    by (simp add: example_env_def example_hash_def example_salt_def)
  have early: "list_all (\<lambda>(t, c). t < issued_expiresAt (Issued ''123456'' 600000 ''signup'')) ?subs"
    by simp
  have digest': "length (bcrypt_hash example_env example_salt ''123456'') = 60"
    using digest by simp
  have early': "list_all (\<lambda>(t, c). t < (600000::int)) ?subs"
    by simp
  have six: "length ?subs = 6"
    by simp
  note run = submit_all_never_counts [OF example_issue digest early, unfolded six]
  from example_issue digest' early' run show ?thesis
    by (intro conjI)
qed

text \<open>
  C3. After \<open>createOTP\<close> the collection holds at most one record for the pair, hence at
  most one active one at any instant \<open>t\<close>: every earlier record of the pair is deleted
  before the new one is inserted, also when the insertion then fails. When the call
  returns there is exactly one. The records of every other pair are the same as before.
\<close>

theorem createOTP_one_record_per_pair:
  assumes "createOTP E salt n now stamp db addr pa = (res, db')"
  shows "length (filter (by_key (cast_email addr) (default_purpose pa)) db') \<le> 1
       \<and> length (filter (active_for (cast_email addr) (default_purpose pa) t) db') \<le> 1
       \<and> filter (\<lambda>d. \<not> by_key (cast_email addr) (default_purpose pa) d) db'
           = filter (\<lambda>d. \<not> by_key (cast_email addr) (default_purpose pa) d) db
       \<and> (case res of
             Inl e \<Rightarrow> filter (by_key (cast_email addr) (default_purpose pa)) db' = []
           | Inr r \<Rightarrow> length (filter (by_key (cast_email addr) (default_purpose pa)) db') = 1)"
proof -
  let ?a = "cast_email addr" and ?p = "default_purpose pa"
  let ?old = "deleteMany (by_key ?a ?p) db"
  have gone: "filter (by_key ?a ?p) ?old = []"
    by (simp add: deleteMany_def)
  have kept: "filter (\<lambda>d. \<not> by_key ?a ?p d) ?old = filter (\<lambda>d. \<not> by_key ?a ?p d) db"
    by (simp add: deleteMany_def)
  have active_sub: "length (filter (active_for ?a ?p t) xs) \<le> length (filter (by_key ?a ?p) xs)" for xs
  proof -
    have "filter (active_for ?a ?p t) xs = filter (active_for ?a ?p t) (filter (by_key ?a ?p) xs)"
      by (induction xs) (auto simp: active_for_def)
    then show ?thesis by (metis length_filter_le)
  qed
  show ?thesis
  proof (cases "emailRegex_test ?a \<and> ?p \<in> set purposes
      \<and> valid_date (now + expire_minutes E * 60 * 1000)")
    case True
    then have "createOTP E salt n now stamp db addr pa =
        (Inr (Issued (generateOTP n) (now + expire_minutes E * 60 * 1000) ?p),
         ?old @ [stored_otp E salt n now stamp addr ?p])"
      by (simp add: createOTP_valid)
    with assms have res: "res = Inr (Issued (generateOTP n) (now + expire_minutes E * 60 * 1000) ?p)"
      and db': "db' = ?old @ [stored_otp E salt n now stamp addr ?p]"
      by simp_all
    have one: "length (filter (by_key ?a ?p) db') = 1"
      by (simp add: db' gone)
    moreover have "length (filter (active_for ?a ?p t) db') \<le> 1"
      using active_sub [of db'] one by simp
    moreover have "filter (\<lambda>d. \<not> by_key ?a ?p d) db' = filter (\<lambda>d. \<not> by_key ?a ?p d) db"
      by (simp add: db' kept)
    ultimately show ?thesis by (simp add: res)
  next
    case False
    then have "createOTP E salt n now stamp db addr pa =
        (Inl (Rethrown ''Failed to create OTP: ''
           (ValidationError (invalid_paths (new_otp E now stamp addr (generateOTP n) ?p)))), ?old)"
      by (rule createOTP_invalid)
    with assms have res: "isl res" and db': "db' = ?old"
      by auto
    have none: "filter (by_key ?a ?p) db' = []"
      by (simp add: db' gone)
    moreover have "length (filter (active_for ?a ?p t) db') \<le> 1"
      using active_sub [of db'] none by simp
    moreover have "filter (\<lambda>d. \<not> by_key ?a ?p d) db' = filter (\<lambda>d. \<not> by_key ?a ?p d) db"
      by (simp add: db' kept)
    ultimately show ?thesis using res by (cases res) simp_all
  qed
qed

theorem createOTP_one_record_per_pair_witness:
  "createOTP example_env example_salt 123456 700000 700000
     [example_doc ''a@x.com'' ''old-digest-1'' ''signup'' 0 2 False,
      example_doc ''b@y.org'' ''old-digest-2'' ''login'' 650000 0 False,
      example_doc ''a@x.com'' ''old-digest-3'' ''signup'' 660000 0 False]
     '' A@X.com'' None
   = (Inr (Issued ''123456'' 1300000 ''signup''),
      [example_doc ''b@y.org'' ''old-digest-2'' ''login'' 650000 0 False,
       example_doc ''a@x.com''
         example_digest
         ''signup'' 700000 0 False])
   \<and> length (filter (by_key (cast_email '' A@X.com'') (default_purpose None))
        [example_doc ''b@y.org'' ''old-digest-2'' ''login'' 650000 0 False,
         example_doc ''a@x.com''
           example_digest
           ''signup'' 700000 0 False]) = 1
   \<and> length (filter (active_for (cast_email '' A@X.com'') (default_purpose None) 700001)
        [example_doc ''b@y.org'' ''old-digest-2'' ''login'' 650000 0 False,
         example_doc ''a@x.com''
           example_digest
           ''signup'' 700000 0 False]) \<le> 1
   \<and> filter (\<lambda>d. \<not> by_key (cast_email '' A@X.com'') (default_purpose None) d)
        [example_doc ''b@y.org'' ''old-digest-2'' ''login'' 650000 0 False,
         example_doc ''a@x.com''
           example_digest
           ''signup'' 700000 0 False]
      = filter (\<lambda>d. \<not> by_key (cast_email '' A@X.com'') (default_purpose None) d)
        [example_doc ''a@x.com'' ''old-digest-1'' ''signup'' 0 2 False,
         example_doc ''b@y.org'' ''old-digest-2'' ''login'' 650000 0 False,
         example_doc ''a@x.com'' ''old-digest-3'' ''signup'' 660000 0 False]"
  using createOTP_one_record_per_pair [OF example_reissue, of 700001] example_reissue
  by simp

text \<open>
  C4. The claim: the stored record holds only a one-way hash of the code, the code itself
  goes back to the caller, and verification compares the submitted code with the stored
  hash. What the code does: the record that \<open>createOTP\<close> stores holds in \<open>code\<close> the
  bcrypt digest of the code the call returns, and with bcrypt's sixty-character digests
  the returned code is in none of the record's string fields; but no verification of that
  record ever compares anything. The \<open>save\<close> before \<open>bcrypt.compare\<close> is rejected (the
  defect of C1), so \<open>verifyOTP\<close> throws the same error for every submitted code and for
  every comparison function \<open>cmp\<close> put in the place of \<open>bcrypt.compare\<close>. That the
  digest is one-way is bcrypt's property and is not part of this model.
\<close>

theorem createOTP_digest_never_compared:
  assumes created: "createOTP E salt n t0 s0 db addr pa = (Inr r, db')"
    and digest: "length (bcrypt_hash E salt (otp r)) = 60"
    and fresh: "t1 < issued_expiresAt r"
  shows "otp r = generateOTP n
       \<and> db' \<noteq> []
       \<and> code (last db') = bcrypt_hash E salt (otp r)
       \<and> otp r \<noteq> code (last db')
       \<and> otp r \<noteq> email (last db')
       \<and> otp r \<noteq> purpose (last db')
       \<and> verifyOTP (E\<lparr>bcrypt_compare := cmp\<rparr>) t1 db' addr c pa =
           (Inl (Rethrown ''OTP verification failed: '' (ValidationError [''code''])), db')"
proof (intro conjI)
  let ?a = "cast_email addr" and ?p = "default_purpose pa"
  have ok: "emailRegex_test ?a" "?p \<in> set purposes"
    "valid_date (t0 + expire_minutes E * 60 * 1000)"
    using createOTP_Inr_valid [OF created] by simp_all
  from created createOTP_valid [OF ok, of salt n s0 db]
  have r: "r = Issued (generateOTP n) (t0 + expire_minutes E * 60 * 1000) ?p"
    and db': "db' = deleteMany (by_key ?a ?p) db @ [stored_otp E salt n t0 s0 addr ?p]"
    by simp_all
  have new: "last db' = stored_otp E salt n t0 s0 addr ?p"
    by (simp add: db')
  have digits: "set (otp r) \<subseteq> set ''0123456789''"
    using generateOTP_digits [of n] by (simp add: r)
  show "otp r = generateOTP n"
    by (simp add: r)
  show "db' \<noteq> []"
    by (simp add: db')
  show "code (last db') = bcrypt_hash E salt (otp r)"
    by (simp add: new r)
  show "otp r \<noteq> code (last db')"
  proof
    assume "otp r = code (last db')"
    then have "length (otp r) = length (bcrypt_hash E salt (otp r))"
      by (simp add: new r)
    with digest show False
      by (simp add: r length_generateOTP)
  qed
  show "otp r \<noteq> email (last db')"
  proof
    assume "otp r = email (last db')"
    then have "CHR ''@'' \<in> set (otp r)"
      using emailRegex_test_has_at [OF ok(1)] by (simp add: new)
    with digits show False by auto
  qed
  show "otp r \<noteq> purpose (last db')"
  proof
    assume "otp r = purpose (last db')"
    then have "otp r \<in> set purposes"
      using ok(2) by (simp add: new)
    with digits purposes_not_digits show False by blast
  qed
  let ?E = "E\<lparr>bcrypt_compare := cmp\<rparr>"
  have "createOTP ?E salt n t0 s0 db addr pa = createOTP E salt n t0 s0 db addr pa"
    by (rule createOTP_ignores_compare)
  with created have created': "createOTP ?E salt n t0 s0 db addr pa = (Inr r, db')"
    by simp
  have digest': "length (bcrypt_hash ?E salt (otp r)) = 60"
    using digest by simp
  show "verifyOTP ?E t1 db' addr c pa =
      (Inl (Rethrown ''OTP verification failed: '' (ValidationError [''code''])), db')"
    using created' digest' fresh by (rule verifyOTP_issued_throws) simp
qed

theorem createOTP_digest_never_compared_witness:
  "createOTP example_env example_salt 123456 0 0 [] ''a@x.com'' (Some ''signup'') =
     (Inr (Issued ''123456'' 600000 ''signup''),
      [example_doc ''a@x.com'' example_digest ''signup'' 0 0 False])
   \<and> length (bcrypt_hash example_env example_salt ''123456'') = 60
   \<and> (1000::int) < 600000
   \<and> code (last [example_doc ''a@x.com'' example_digest ''signup'' 0 0 False])
      = bcrypt_hash example_env example_salt ''123456''
   \<and> ''123456'' \<noteq> code (last [example_doc ''a@x.com'' example_digest ''signup'' 0 0 False])
   \<and> verifyOTP (example_env\<lparr>bcrypt_compare := (\<lambda>s h. True)\<rparr>) 1000
        [example_doc ''a@x.com'' example_digest ''signup'' 0 0 False]
        ''a@x.com'' ''123456'' (Some ''signup'')
      = (Inl (Rethrown ''OTP verification failed: '' (ValidationError [''code''])),
         [example_doc ''a@x.com'' example_digest ''signup'' 0 0 False])"
proof -
  let ?issued = "[example_doc ''a@x.com'' example_digest ''signup'' 0 0 False]"
  have digest: "length (bcrypt_hash example_env example_salt (otp (Issued ''123456'' 600000 ''signup''))) = 60"
    by (simp add: example_env_def example_hash_def example_salt_def)
  have digest': "length (bcrypt_hash example_env example_salt ''123456'') = 60"
    using digest by simp
  have fresh: "1000 < issued_expiresAt (Issued ''123456'' 600000 ''signup'')"
    by simp
  have fresh': "(1000::int) < 600000"
    by simp
  note facts = createOTP_digest_never_compared [OF example_issue digest fresh,
      where cmp = "\<lambda>s h. True" and c = "''123456''", unfolded issued.sel]
  have stored: "code (last ?issued) = bcrypt_hash example_env example_salt ''123456''"
    using facts by (elim conjE)
  have hidden: "''123456'' \<noteq> code (last ?issued)"
    using facts by (elim conjE)
  have thrown: "verifyOTP (example_env\<lparr>bcrypt_compare := (\<lambda>s h. True)\<rparr>) 1000 ?issued
        ''a@x.com'' ''123456'' (Some ''signup'')
      = (Inl (Rethrown ''OTP verification failed: '' (ValidationError [''code''])), ?issued)"
    using facts by (elim conjE)
  from example_issue digest' fresh' stored hidden thrown show ?thesis
    by (intro conjI)
qed

text \<open>
  C5. \<open>resendOTP\<close> throws the cool-down error as soon as some record of the pair has
  \<open>createdAt\<close> within the last 60 seconds; neither \<open>isUsed\<close> nor \<open>expiresAt\<close> of
  that record is looked at, and the collection is left as it was. When no record of the pair
  is that recent it does what \<open>createOTP\<close> does, and returns when \<open>createOTP\<close> does:
  when the address and the purpose pass the validators and \<open>issue + TTL\<close> is within the
  range of \<open>Date\<close>, where the TTL is \<open>OTP_EXPIRE_MINUTES\<close> minutes and 10 when the
  variable is unset, not a number or 0. Then the records of the pair are deleted and a
  fresh one, unused, with no attempts and created at \<open>stamp\<close>, is stored.
\<close>

theorem resendOTP_cooldown:
  "(d \<in> set db \<and> by_key (cast_email addr) (default_purpose pa) d \<and> now - 60 * 1000 \<le> createdAt d
      \<longrightarrow> resendOTP E salt n now issue stamp db addr pa =
            (Inl (Rethrown ''Failed to resend OTP: ''
                    (Error ''Please wait at least 1 minute before requesting a new OTP'')), db))
   \<and> (\<not> list_ex (recent_for (cast_email addr) (default_purpose pa) now) db
        \<and> emailRegex_test (cast_email addr) \<and> default_purpose pa \<in> set purposes
        \<and> ttl = (case OTP_EXPIRE_MINUTES E of None \<Rightarrow> 10 | Some m \<Rightarrow> if m = 0 then 10 else m)
        \<and> valid_date (issue + ttl * 60 * 1000)
      \<longrightarrow> resendOTP E salt n now issue stamp db addr pa = createOTP E salt n issue stamp db addr pa
          \<and> fst (resendOTP E salt n now issue stamp db addr pa) =
              Inr (Issued (generateOTP n) (issue + ttl * 60 * 1000) (default_purpose pa))
          \<and> snd (resendOTP E salt n now issue stamp db addr pa) =
              deleteMany (by_key (cast_email addr) (default_purpose pa)) db
                @ [last (snd (resendOTP E salt n now issue stamp db addr pa))]
          \<and> by_key (cast_email addr) (default_purpose pa)
                (last (snd (resendOTP E salt n now issue stamp db addr pa)))
          \<and> isUsed (last (snd (resendOTP E salt n now issue stamp db addr pa))) = False
          \<and> attempts (last (snd (resendOTP E salt n now issue stamp db addr pa))) = 0
          \<and> createdAt (last (snd (resendOTP E salt n now issue stamp db addr pa))) = stamp)"
proof (intro conjI impI)
  let ?a = "cast_email addr" and ?p = "default_purpose pa"
  assume "d \<in> set db \<and> by_key ?a ?p d \<and> now - 60 * 1000 \<le> createdAt d"
  then have "d \<in> set db" and "recent_for ?a ?p now d"
    by (simp_all add: recent_for_def)
  then have "findOne (recent_for ?a ?p now) db \<noteq> None"
    by (auto simp: findOne_None_iff)
  then obtain i where "findOne (recent_for ?a ?p now) db = Some i"
    by auto
  then show "resendOTP E salt n now issue stamp db addr pa =
      (Inl (Rethrown ''Failed to resend OTP: ''
              (Error ''Please wait at least 1 minute before requesting a new OTP'')), db)"
    by (simp add: resendOTP_def)
next
  let ?a = "cast_email addr" and ?p = "default_purpose pa"
  let ?doc = "stored_otp E salt n issue stamp addr ?p"
  assume h: "\<not> list_ex (recent_for ?a ?p now) db \<and> emailRegex_test ?a \<and> ?p \<in> set purposes
      \<and> ttl = (case OTP_EXPIRE_MINUTES E of None \<Rightarrow> 10 | Some m \<Rightarrow> if m = 0 then 10 else m)
      \<and> valid_date (issue + ttl * 60 * 1000)"
  then have ttl: "ttl = expire_minutes E"
    by (simp add: expire_minutes_def)
  from h have none: "findOne (recent_for ?a ?p now) db = None"
    by (simp add: findOne_None_iff list_ex_iff)
  have p: "default_purpose (Some ?p) = ?p"
    by (simp add: default_purpose_def)
  have same: "createOTP E salt n issue stamp db addr (Some ?p) = createOTP E salt n issue stamp db addr pa"
    by (simp add: createOTP_def p)
  from h have ok: "emailRegex_test ?a" "?p \<in> set purposes"
      "valid_date (issue + expire_minutes E * 60 * 1000)"
    unfolding ttl by blast+
  have created: "createOTP E salt n issue stamp db addr pa =
      (Inr (Issued (generateOTP n) (issue + expire_minutes E * 60 * 1000) ?p),
       deleteMany (by_key ?a ?p) db @ [?doc])"
    using ok by (rule createOTP_valid)
  have resent: "resendOTP E salt n now issue stamp db addr pa = createOTP E salt n issue stamp db addr pa"
    using none same created by (simp add: resendOTP_def Let_def)
  have new: "last (snd (resendOTP E salt n now issue stamp db addr pa)) = ?doc"
    by (simp add: resent created)
  show "resendOTP E salt n now issue stamp db addr pa = createOTP E salt n issue stamp db addr pa"
    by (rule resent)
  show "fst (resendOTP E salt n now issue stamp db addr pa) =
      Inr (Issued (generateOTP n) (issue + ttl * 60 * 1000) ?p)"
    by (simp add: resent created ttl)
  show "snd (resendOTP E salt n now issue stamp db addr pa) =
      deleteMany (by_key ?a ?p) db @ [last (snd (resendOTP E salt n now issue stamp db addr pa))]"
    unfolding new by (simp add: resent created)
  show "by_key ?a ?p (last (snd (resendOTP E salt n now issue stamp db addr pa)))"
    unfolding new by simp
  show "isUsed (last (snd (resendOTP E salt n now issue stamp db addr pa))) = False"
    unfolding new by simp
  show "attempts (last (snd (resendOTP E salt n now issue stamp db addr pa))) = 0"
    unfolding new by simp
  show "createdAt (last (snd (resendOTP E salt n now issue stamp db addr pa))) = stamp"
    unfolding new by simp
qed

theorem resendOTP_cooldown_witness:
  "example_doc ''a@x.com'' ''digest-1'' ''signup'' 0 3 True
     \<in> set [example_doc ''a@x.com'' ''digest-1'' ''signup'' 0 3 True]
   \<and> by_key (cast_email ''A@x.com'') (default_purpose None)
        (example_doc ''a@x.com'' ''digest-1'' ''signup'' 0 3 True)
   \<and> 60000 - 60 * 1000 \<le> createdAt (example_doc ''a@x.com'' ''digest-1'' ''signup'' 0 3 True)
   \<and> resendOTP (example_env\<lparr>OTP_EXPIRE_MINUTES := Some 5\<rparr>) example_salt 7 60000 60002 60003
        [example_doc ''a@x.com'' ''digest-1'' ''signup'' 0 3 True] ''A@x.com'' None
      = (Inl (Rethrown ''Failed to resend OTP: ''
                (Error ''Please wait at least 1 minute before requesting a new OTP'')),
         [example_doc ''a@x.com'' ''digest-1'' ''signup'' 0 3 True])
   \<and> \<not> list_ex (recent_for (cast_email ''A@x.com'') (default_purpose None) 60001)
          [example_doc ''a@x.com'' ''digest-1'' ''signup'' 0 3 True]
   \<and> emailRegex_test (cast_email ''A@x.com'')
   \<and> default_purpose None \<in> set purposes
   \<and> (5::int) = (case OTP_EXPIRE_MINUTES (example_env\<lparr>OTP_EXPIRE_MINUTES := Some 5\<rparr>) of
                   None \<Rightarrow> 10 | Some m \<Rightarrow> if m = 0 then 10 else m)
   \<and> valid_date (60002 + 5 * 60 * 1000)
   \<and> resendOTP (example_env\<lparr>OTP_EXPIRE_MINUTES := Some 5\<rparr>) example_salt 7 60001 60002 60003
        [example_doc ''a@x.com'' ''digest-1'' ''signup'' 0 3 True] ''A@x.com'' None
      = (Inr (Issued ''000007'' 360002 ''signup''),
         [\<lparr>email = ''a@x.com'',
           code = ''$2a$12$N9qo8uLOickgx2ZMRZoMye000007.........................'',
           purpose = ''signup'', expiresAt = 360002, attempts = 0, isUsed = False,
           createdAt = 60003, updatedAt = 60003\<rparr>])"
proof -
  let ?d = "example_doc ''a@x.com'' ''digest-1'' ''signup'' 0 3 True"
  let ?E = "example_env\<lparr>OTP_EXPIRE_MINUTES := Some 5\<rparr>"
  have a1: "?d \<in> set [?d]"
    by simp
  have a2: "by_key (cast_email ''A@x.com'') (default_purpose None) ?d"
    by (simp add: by_key_def example_doc_def default_purpose_def string_eval)
  have a3: "60000 - 60 * 1000 \<le> createdAt ?d"
    by (simp add: example_doc_def)
  have b1: "\<not> list_ex (recent_for (cast_email ''A@x.com'') (default_purpose None) 60001) [?d]"
    by (simp add: recent_for_def example_doc_def)
  have b2: "emailRegex_test (cast_email ''A@x.com'')"
    by (simp add: string_eval)
  have b3: "default_purpose None \<in> set purposes"
    by (simp add: default_purpose_def purposes_def)
  have b4: "(5::int) = (case OTP_EXPIRE_MINUTES ?E of None \<Rightarrow> 10 | Some m \<Rightarrow> if m = 0 then 10 else m)"
    by simp
  have b5: "valid_date (60002 + 5 * 60 * 1000)"
    by (simp add: valid_date_def)
  have blocked: "resendOTP ?E example_salt 7 60000 60002 60003 [?d] ''A@x.com'' None
      = (Inl (Rethrown ''Failed to resend OTP: ''
                (Error ''Please wait at least 1 minute before requesting a new OTP'')), [?d])"
    using resendOTP_cooldown [of ?d "[?d]" "''A@x.com''" None 60000 ?E example_salt 7 60002 60003 5]
      a1 a2 a3 by blast
  have "resendOTP ?E example_salt 7 60001 60002 60003 [?d] ''A@x.com'' None
      = createOTP ?E example_salt 7 60002 60003 [?d] ''A@x.com'' None"
    using resendOTP_cooldown [of ?d "[?d]" "''A@x.com''" None 60001 ?E example_salt 7 60002 60003 5]
      b1 b2 b3 b4 b5 by blast
  then have resent: "resendOTP ?E example_salt 7 60001 60002 60003 [?d] ''A@x.com'' None
      = (Inr (Issued ''000007'' 360002 ''signup''),
         [\<lparr>email = ''a@x.com'',
           code = ''$2a$12$N9qo8uLOickgx2ZMRZoMye000007.........................'',
           purpose = ''signup'', expiresAt = 360002, attempts = 0, isUsed = False,
           createdAt = 60003, updatedAt = 60003\<rparr>])"
    by (simp add: otp_eval string_eval)
  from a1 a2 a3 blocked b1 b2 b3 b4 b5 resent show ?thesis
    by (intro conjI)
qed

text \<open>
  C6. In a collection that any history of calls has left, a record whose \<open>expiresAt\<close> is
  not after the clock is not eligible, and it is the only record of its pair: \<open>verifyOTP\<close>
  for its address and purpose answers with the not-found-or-expired message whatever code
  is submitted, and leaves the collection, the record's \<open>attempts\<close> included, as it was.
\<close>

theorem verifyOTP_expired_not_found:
  assumes "d \<in> set (run E [] ops)"
    and "expiresAt d \<le> now"
    and "cast_email addr = email d"
    and "default_purpose pa = purpose d"
  shows "verifyOTP E now (run E [] ops) addr c pa =
           (Inr \<lparr>valid = False, message = ''Invalid or expired OTP''\<rparr>, run E [] ops)"
proof (rule verifyOTP_branch_not_found, rule ballI)
  fix x
  assume x: "x \<in> set (run E [] ops)"
  have inv: "one_per_key (run E [] ops)"
    by (rule one_per_key_run) (simp add: one_per_key_def)
  show "\<not> active_for (cast_email addr) (default_purpose pa) now x"
  proof
    assume act: "active_for (cast_email addr) (default_purpose pa) now x"
    then have "key_of x = key_of d"
      using assms(3,4) by (simp add: active_for_def by_key_def key_of_def)
    with inv assms(1) x have "x = d"
      by (rule one_per_key_unique)
    with act assms(2) show False
      by (simp add: active_for_def)
  qed
qed

theorem verifyOTP_expired_not_found_witness:
  "example_doc ''a@x.com''
      example_digest ''signup'' 0 0 False
     \<in> set (run example_env [] [CreateOTP example_salt 123456 0 0 ''a@x.com'' None])
   \<and> expiresAt (example_doc ''a@x.com''
        example_digest ''signup'' 0 0 False)
       \<le> 600000
   \<and> cast_email ''a@x.com'' = email (example_doc ''a@x.com''
        example_digest ''signup'' 0 0 False)
   \<and> default_purpose None = purpose (example_doc ''a@x.com''
        example_digest ''signup'' 0 0 False)
   \<and> verifyOTP example_env 600000
        (run example_env [] [CreateOTP example_salt 123456 0 0 ''a@x.com'' None])
        ''a@x.com'' ''123456'' None
      = (Inr \<lparr>valid = False, message = ''Invalid or expired OTP''\<rparr>,
         run example_env [] [CreateOTP example_salt 123456 0 0 ''a@x.com'' None])"
proof -
  let ?d = "example_doc ''a@x.com''
      example_digest ''signup'' 0 0 False"
  have stored: "?d \<in> set (run example_env [] [CreateOTP example_salt 123456 0 0 ''a@x.com'' None])"
    by (simp add: example_run)
  have expired: "expiresAt ?d \<le> 600000"
    by (simp add: example_doc_def)
  have address: "cast_email ''a@x.com'' = email ?d"
    by (simp add: example_doc_def string_eval)
  have purp: "default_purpose None = purpose ?d"
    by (simp add: example_doc_def default_purpose_def)
  from stored expired address purp
    verifyOTP_expired_not_found [OF stored expired address purp, of "''123456''"]
  show ?thesis
    by (intro conjI)
qed

text \<open>
  C7. The claim: on a mismatch \<open>verifyOTP\<close> returns \<open>valid = false\<close> with the
  invalid-code reason and the record stays usable, so a later call with the correct code
  succeeds. What the code does on a record that \<open>createOTP\<close> issued: the rejected
  \<open>save\<close> of C1 comes before the comparison, so the mismatch is never reported, the call
  throws, and the record is left as it was.
\<close>

theorem verifyOTP_mismatch_throws:
  assumes "createOTP E salt n t0 s0 db addr pa = (Inr r, db')"
    and "length (bcrypt_hash E salt (otp r)) = 60"
    and "t1 < issued_expiresAt r"
    and "\<not> bcrypt_compare E c (bcrypt_hash E salt (otp r))"
  shows "verifyOTP E t1 db' addr c pa =
           (Inl (Rethrown ''OTP verification failed: '' (ValidationError [''code''])), db')
         \<and> fst (verifyOTP E t1 db' addr c pa) \<noteq> Inr \<lparr>valid = False, message = ''Invalid OTP code''\<rparr>"
proof -
  have "verifyOTP E t1 db' addr c pa =
          (Inl (Rethrown ''OTP verification failed: '' (ValidationError [''code''])), db')"
    using assms(1-3) by (intro verifyOTP_issued_throws) simp_all
  then show ?thesis by simp
qed

theorem verifyOTP_mismatch_throws_witness:
  "createOTP example_env example_salt 123456 0 0 [] ''a@x.com'' (Some ''signup'') =
     (Inr (Issued ''123456'' 600000 ''signup''),
      [example_doc ''a@x.com'' example_digest ''signup'' 0 0 False])
   \<and> length (bcrypt_hash example_env example_salt ''123456'') = 60
   \<and> (1000::int) < 600000
   \<and> \<not> bcrypt_compare example_env ''654321'' (bcrypt_hash example_env example_salt ''123456'')
   \<and> verifyOTP example_env 1000
        [example_doc ''a@x.com'' example_digest ''signup'' 0 0 False]
        ''a@x.com'' ''654321'' (Some ''signup'')
      = (Inl (Rethrown ''OTP verification failed: '' (ValidationError [''code''])),
         [example_doc ''a@x.com'' example_digest ''signup'' 0 0 False])"
proof -
  have digest: "length (bcrypt_hash example_env example_salt (otp (Issued ''123456'' 600000 ''signup''))) = 60"
    by (simp add: example_env_def example_hash_def example_salt_def)
  have fresh: "1000 < issued_expiresAt (Issued ''123456'' 600000 ''signup'')"
    by simp
  have wrong: "\<not> bcrypt_compare example_env ''654321''
      (bcrypt_hash example_env example_salt (otp (Issued ''123456'' 600000 ''signup'')))"
    by (simp add: example_env_def example_hash_def example_salt_def)
  from verifyOTP_mismatch_throws [OF example_issue digest fresh wrong] digest wrong example_issue
  show ?thesis by simp
qed

text \<open>
  C8. \<open>createOTP\<close> returns for every address that passes the e-mail validator, every
  purpose of the enumeration and every clock reading \<open>now\<close> for which \<open>now + TTL\<close> is
  within the range of \<open>Date\<close>; the TTL is \<open>OTP_EXPIRE_MINUTES\<close> minutes, and 10 minutes
  when the variable is unset, not a number or 0. The record it appends has
  \<open>attempts = 0\<close>, \<open>isUsed = false\<close> and \<open>expiresAt = now + TTL\<close>; the code it returns
  is six decimal digits and comes with the same \<open>expiresAt\<close>.
\<close>

theorem createOTP_persists_fresh_record:
  assumes "emailRegex_test (cast_email addr)" and "default_purpose pa \<in> set purposes"
    and "ttl = (case OTP_EXPIRE_MINUTES E of None \<Rightarrow> 10 | Some m \<Rightarrow> if m = 0 then 10 else m)"
    and "valid_date (now + ttl * 60 * 1000)"
  shows "fst (createOTP E salt n now stamp db addr pa) =
           Inr (Issued (generateOTP n) (now + ttl * 60 * 1000) (default_purpose pa))
       \<and> snd (createOTP E salt n now stamp db addr pa) =
           deleteMany (by_key (cast_email addr) (default_purpose pa)) db
             @ [last (snd (createOTP E salt n now stamp db addr pa))]
       \<and> by_key (cast_email addr) (default_purpose pa)
             (last (snd (createOTP E salt n now stamp db addr pa)))
       \<and> attempts (last (snd (createOTP E salt n now stamp db addr pa))) = 0
       \<and> isUsed (last (snd (createOTP E salt n now stamp db addr pa))) = False
       \<and> expiresAt (last (snd (createOTP E salt n now stamp db addr pa))) = now + ttl * 60 * 1000
       \<and> length (generateOTP n) = 6
       \<and> set (generateOTP n) \<subseteq> set ''0123456789''"
proof -
  let ?p = "default_purpose pa"
  let ?doc = "stored_otp E salt n now stamp addr ?p"
  have ttl: "ttl = expire_minutes E"
    using assms(3) by (simp add: expire_minutes_def)
  have "createOTP E salt n now stamp db addr pa =
      (Inr (Issued (generateOTP n) (now + expire_minutes E * 60 * 1000) ?p),
       deleteMany (by_key (cast_email addr) ?p) db @ [?doc])"
    using assms(1,2,4) unfolding ttl by (rule createOTP_valid)
  then have res: "fst (createOTP E salt n now stamp db addr pa) =
      Inr (Issued (generateOTP n) (now + ttl * 60 * 1000) ?p)"
    and db': "snd (createOTP E salt n now stamp db addr pa) =
      deleteMany (by_key (cast_email addr) ?p) db @ [?doc]"
    by (simp_all add: ttl)
  have new: "last (snd (createOTP E salt n now stamp db addr pa)) = ?doc"
    by (simp add: db')
  show ?thesis
    unfolding new
    using res db' length_generateOTP [of n] generateOTP_digits [of n]
    by (simp add: ttl)
qed

theorem createOTP_persists_fresh_record_witness:
  "emailRegex_test (cast_email ''Bob.Smith@Mail.Example.org'')
   \<and> default_purpose (Some ''password_reset'') \<in> set purposes
   \<and> (5::int) = (case OTP_EXPIRE_MINUTES (example_env\<lparr>OTP_EXPIRE_MINUTES := Some 5\<rparr>) of
                   None \<Rightarrow> 10 | Some m \<Rightarrow> if m = 0 then 10 else m)
   \<and> valid_date (5000 + 5 * 60 * 1000)
   \<and> createOTP (example_env\<lparr>OTP_EXPIRE_MINUTES := Some 5\<rparr>) example_salt 42 5000 5003 []
        ''Bob.Smith@Mail.Example.org'' (Some ''password_reset'')
      = (Inr (Issued ''000042'' 305000 ''password_reset''),
         [\<lparr>email = ''bob.smith@mail.example.org'',
           code = ''$2a$12$N9qo8uLOickgx2ZMRZoMye000042.........................'',
           purpose = ''password_reset'', expiresAt = 305000, attempts = 0, isUsed = False,
           createdAt = 5003, updatedAt = 5003\<rparr>])
   \<and> generateOTP 42 = ''000042''"
proof -
  let ?E = "example_env\<lparr>OTP_EXPIRE_MINUTES := Some 5\<rparr>"
  have email_ok: "emailRegex_test (cast_email ''Bob.Smith@Mail.Example.org'')"
    by (simp add: string_eval)
  have purpose_ok: "default_purpose (Some ''password_reset'') \<in> set purposes"
    by (simp add: default_purpose_def purposes_def)
  have ttl: "(5::int) = (case OTP_EXPIRE_MINUTES ?E of None \<Rightarrow> 10 | Some m \<Rightarrow> if m = 0 then 10 else m)"
    by simp
  have date_ok: "valid_date (5000 + 5 * 60 * 1000)"
    by (simp add: valid_date_def)
  have code: "generateOTP 42 = ''000042''"
    by (simp add: string_eval)
  note facts = createOTP_persists_fresh_record [OF email_ok purpose_ok ttl date_ok,
      of example_salt 42 5003 "[]"]
  have "createOTP ?E example_salt 42 5000 5003 [] ''Bob.Smith@Mail.Example.org''
        (Some ''password_reset'')
      = (Inr (Issued ''000042'' 305000 ''password_reset''),
         [\<lparr>email = ''bob.smith@mail.example.org'',
           code = ''$2a$12$N9qo8uLOickgx2ZMRZoMye000042.........................'',
           purpose = ''password_reset'', expiresAt = 305000, attempts = 0, isUsed = False,
           createdAt = 5003, updatedAt = 5003\<rparr>])"
    using facts by (simp add: otp_eval string_eval)
  with email_ok purpose_ok ttl date_ok code show ?thesis
    by (intro conjI)
qed

text \<open>
  C9. The claim: an address is stored lower-cased and looked up lower-cased, so the correct
  code verifies whatever the casing at issue and at verification. What the code does: the
  two casings do reach the same record (\<open>verifyOTP_cast_email\<close>), and on that record
  the call throws as in C1 instead of verifying.
\<close>

theorem verifyOTP_other_casing_throws:
  assumes "createOTP E salt n t0 s0 db addr pa = (Inr r, db')"
    and "length (bcrypt_hash E salt (otp r)) = 60"
    and "t1 < issued_expiresAt r"
    and "toLowerCase addr' = toLowerCase addr"
  shows "verifyOTP E t1 db' addr' (otp r) pa =
           (Inl (Rethrown ''OTP verification failed: '' (ValidationError [''code''])), db')"
proof -
  have same: "cast_email addr' = cast_email addr"
    using assms(4) by (rule toLowerCase_cast_email)
  show ?thesis
    using assms(1-3) same by (rule verifyOTP_issued_throws)
qed

theorem verifyOTP_other_casing_throws_witness:
  "createOTP example_env example_salt 123456 0 0 [] ''Alice@Example.COM'' (Some ''signup'') =
     (Inr (Issued ''123456'' 600000 ''signup''),
      [example_doc ''alice@example.com'' example_digest ''signup'' 0 0 False])
   \<and> length (bcrypt_hash example_env example_salt ''123456'') = 60
   \<and> (1000::int) < 600000
   \<and> toLowerCase ''ALICE@example.com'' = toLowerCase ''Alice@Example.COM''
   \<and> verifyOTP example_env 1000
        [example_doc ''alice@example.com'' example_digest ''signup'' 0 0 False]
        ''ALICE@example.com'' ''123456'' (Some ''signup'')
      = (Inl (Rethrown ''OTP verification failed: '' (ValidationError [''code''])),
         [example_doc ''alice@example.com'' example_digest ''signup'' 0 0 False])"
proof -
  have digest: "length (bcrypt_hash example_env example_salt (otp (Issued ''123456'' 600000 ''signup''))) = 60"
    by (simp add: example_env_def example_hash_def example_salt_def)
  have fresh: "1000 < issued_expiresAt (Issued ''123456'' 600000 ''signup'')"
    by simp
  have casing: "toLowerCase ''ALICE@example.com'' = toLowerCase ''Alice@Example.COM''"
    by (simp add: string_eval)
  from verifyOTP_other_casing_throws [OF example_issue_mixed_case digest fresh casing]
    digest casing example_issue_mixed_case
  show ?thesis by simp
qed

text \<open>
  C10. When the record that \<open>verifyOTP\<close> finds has \<open>attempts \<ge> 5\<close>, the call answers
  with the too-many-attempts message whatever code is submitted and whatever
  \<open>bcrypt.compare\<close> would say, and the collection is left as it was. No operation writes
  an \<open>attempts\<close> above 5: a collection whose counters are at most 5 keeps that through
  every history of calls.
\<close>

theorem verifyOTP_attempt_cap:
  "(findOne (active_for (cast_email addr) (default_purpose pa) now) db = Some i
      \<and> 5 \<le> attempts (db ! i)
     \<longrightarrow> verifyOTP E now db addr c pa =
           (Inr \<lparr>valid = False,
                 message = ''Too many attempts. Please request a new OTP.''\<rparr>, db))
   \<and> (attempts_capped db0 \<longrightarrow> attempts_capped (run E db0 ops))"
proof (intro conjI impI)
  assume "findOne (active_for (cast_email addr) (default_purpose pa) now) db = Some i
      \<and> 5 \<le> attempts (db ! i)"
  then show "verifyOTP E now db addr c pa =
      (Inr \<lparr>valid = False, message = ''Too many attempts. Please request a new OTP.''\<rparr>, db)"
    by (simp add: verifyOTP_branch_too_many)
next
  assume "attempts_capped db0"
  then show "attempts_capped (run E db0 ops)"
    by (rule attempts_capped_run)
qed

theorem verifyOTP_attempt_cap_witness:
  "findOne (active_for (cast_email ''a@x.com'') (default_purpose None) 1000)
      [example_doc ''a@x.com'' ''123456'' ''signup'' 0 5 False] = Some 0
   \<and> 5 \<le> attempts ([example_doc ''a@x.com'' ''123456'' ''signup'' 0 5 False] ! 0)
   \<and> verifyOTP example_env 1000 [example_doc ''a@x.com'' ''123456'' ''signup'' 0 5 False]
        ''a@x.com'' ''123456'' None
      = (Inr \<lparr>valid = False, message = ''Too many attempts. Please request a new OTP.''\<rparr>,
         [example_doc ''a@x.com'' ''123456'' ''signup'' 0 5 False])
   \<and> attempts_capped [example_doc ''a@x.com'' ''123456'' ''signup'' 0 4 False]
   \<and> attempts_capped
        (run example_env [example_doc ''a@x.com'' ''123456'' ''signup'' 0 4 False]
           [VerifyOTP 1000 ''a@x.com'' ''000000'' None,
            VerifyOTP 2000 ''a@x.com'' ''000000'' None])
   \<and> run example_env [example_doc ''a@x.com'' ''123456'' ''signup'' 0 4 False]
        [VerifyOTP 1000 ''a@x.com'' ''000000'' None,
         VerifyOTP 2000 ''a@x.com'' ''000000'' None]
      = [(example_doc ''a@x.com'' ''123456'' ''signup'' 0 5 False)\<lparr>updatedAt := 1000\<rparr>]"
proof -
  let ?full = "[example_doc ''a@x.com'' ''123456'' ''signup'' 0 5 False]"
  let ?db0 = "[example_doc ''a@x.com'' ''123456'' ''signup'' 0 4 False]"
  let ?ops = "[VerifyOTP 1000 ''a@x.com'' ''000000'' None, VerifyOTP 2000 ''a@x.com'' ''000000'' None]"
  have found: "findOne (active_for (cast_email ''a@x.com'') (default_purpose None) 1000) ?full = Some 0"
    by (simp add: active_for_def by_key_def example_doc_def default_purpose_def string_eval)
  have full: "5 \<le> attempts (?full ! 0)"
    by (simp add: example_doc_def)
  have capped: "attempts_capped ?db0"
    by (simp add: attempts_capped_def example_doc_def)
  note facts = verifyOTP_attempt_cap [of "''a@x.com''" None 1000 ?full 0 example_env "''123456''" ?db0 ?ops]
  have refused: "verifyOTP example_env 1000 ?full ''a@x.com'' ''123456'' None
      = (Inr \<lparr>valid = False, message = ''Too many attempts. Please request a new OTP.''\<rparr>, ?full)"
    using facts found full by blast
  have kept: "attempts_capped (run example_env ?db0 ?ops)"
    using facts capped by blast
  have ran: "run example_env ?db0 ?ops
      = [(example_doc ''a@x.com'' ''123456'' ''signup'' 0 5 False)\<lparr>updatedAt := 1000\<rparr>]"
    by (simp add: run_def otp_eval string_eval example_doc_def)
  from found full refused capped kept ran show ?thesis
    by (intro conjI)
qed

end
